theory Spec2Isabelle
  imports Complex_Main
begin

section \<open>Python values used by the risk engine\<close>

text \<open>
  The engine of \<^verbatim>\<open>radiation_map_light.py\<close> works on Python floats, which are IEEE 754
  binary64 numbers. A finite value \<open>Fin q\<close> stands for the double nearest to the rational
  \<open>q\<close>: readings and literals are written as decimals (\<^verbatim>\<open>0.15\<close> is \<open>15/100\<close>), and what
  an arithmetic operation returns is the exact value of a double. Comparisons are made on
  the rationals as written; every ordered comparison with NaN is false.
\<close>

datatype pyfloat = Fin rat | PInf | NInf | NaN

datatype py_error = KeyError | ZeroDivisionError

fun flt_less :: "pyfloat \<Rightarrow> pyfloat \<Rightarrow> bool" where
  "flt_less (Fin a) (Fin b) = (a < b)"
| "flt_less (Fin a) PInf = True"
| "flt_less NInf (Fin b) = True"
| "flt_less NInf PInf = True"
| "flt_less _ _ = False"

fun flt_le :: "pyfloat \<Rightarrow> pyfloat \<Rightarrow> bool" where
  "flt_le (Fin a) (Fin b) = (a \<le> b)"
| "flt_le (Fin a) PInf = True"
| "flt_le NInf (Fin b) = True"
| "flt_le NInf PInf = True"
| "flt_le PInf PInf = True"
| "flt_le NInf NInf = True"
| "flt_le _ _ = False"

subsection \<open>Rounding to binary64\<close>

text \<open>The number of binary digits of a natural number (\<^verbatim>\<open>int.bit_length\<close>).\<close>

function bit_length :: "nat \<Rightarrow> nat" where
  "bit_length n = (if n = 0 then 0 else Suc (bit_length (n div 2)))"
  by pat_completeness auto
termination
  by (relation "measure id") auto

declare bit_length.simps [simp del]

text \<open>The binary exponent of a positive rational \<open>a\<close>: the \<open>e\<close> with \<open>2^e \<le> a < 2^(e+1)\<close>.\<close>

definition ilog2 :: "rat \<Rightarrow> int" where
  "ilog2 a =
     (if 1 \<le> a then int (bit_length (nat \<lfloor>a\<rfloor>)) - 1
      else - int (bit_length (nat \<lceil>1 / a\<rceil> - 1)))"

text \<open>Rounding of a non-negative rational to the nearest integer, ties to even.\<close>

definition round_half_even :: "rat \<Rightarrow> nat" where
  "round_half_even q =
     (let f = nat \<lfloor>q\<rfloor>; d = q - of_nat f
      in if d < 1 / 2 then f
         else if 1 / 2 < d then f + 1
         else if even f then f else f + 1)"

text \<open>
  Rounding to the nearest double, ties to even: 53 significant bits, the least binary
  exponent \<open>-1022\<close> (below it the spacing stays \<open>2^-1074\<close>), and an infinity once the
  rounded magnitude reaches \<open>2^1024\<close>. The sign of a zero is not kept.
\<close>

definition round_double :: "rat \<Rightarrow> pyfloat" where
  "round_double q =
     (if q = 0 then Fin 0
      else
        (let a = \<bar>q\<bar>;
             e = max (ilog2 a) (- 1022);
             ulp = power_int 2 (e - 52);
             v = of_nat (round_half_even (a / ulp)) * ulp
         in if power_int 2 1024 \<le> v then (if 0 < q then PInf else NInf)
            else Fin (if 0 < q then v else - v)))"

text \<open>The double that a value stands for.\<close>

fun dbl :: "pyfloat \<Rightarrow> pyfloat" where
  "dbl (Fin q) = round_double q"
| "dbl x = x"

subsection \<open>Arithmetic\<close>

text \<open>The operations on exact values, with the IEEE rules for infinities and NaN.\<close>

fun exact_add :: "pyfloat \<Rightarrow> pyfloat \<Rightarrow> pyfloat" where
  "exact_add (Fin a) (Fin b) = Fin (a + b)"
| "exact_add NaN _ = NaN"
| "exact_add _ NaN = NaN"
| "exact_add PInf NInf = NaN"
| "exact_add NInf PInf = NaN"
| "exact_add PInf _ = PInf"
| "exact_add _ PInf = PInf"
| "exact_add NInf _ = NInf"
| "exact_add _ NInf = NInf"

fun fneg :: "pyfloat \<Rightarrow> pyfloat" where
  "fneg (Fin a) = Fin (- a)"
| "fneg PInf = NInf"
| "fneg NInf = PInf"
| "fneg NaN = NaN"

definition inf_times :: "pyfloat \<Rightarrow> rat \<Rightarrow> pyfloat" where
  "inf_times i b = (if b = 0 then NaN else if 0 < b then i else fneg i)"

fun exact_mul :: "pyfloat \<Rightarrow> pyfloat \<Rightarrow> pyfloat" where
  "exact_mul (Fin a) (Fin b) = Fin (a * b)"
| "exact_mul NaN _ = NaN"
| "exact_mul _ NaN = NaN"
| "exact_mul (Fin a) i = inf_times i a"
| "exact_mul i (Fin b) = inf_times i b"
| "exact_mul PInf PInf = PInf"
| "exact_mul NInf NInf = PInf"
| "exact_mul PInf NInf = NInf"
| "exact_mul NInf PInf = NInf"

text \<open>
  Division of exact values: a zero divisor raises \<^verbatim>\<open>ZeroDivisionError\<close>; a finite
  value divided by an infinity is zero, and an infinity divided by an infinity is NaN.
\<close>

fun exact_div :: "pyfloat \<Rightarrow> pyfloat \<Rightarrow> py_error + pyfloat" where
  "exact_div a (Fin b) =
     (if b = 0 then Inl ZeroDivisionError
      else Inr (case a of Fin x \<Rightarrow> Fin (x / b) | NaN \<Rightarrow> NaN
                | i \<Rightarrow> (if 0 < b then i else fneg i)))"
| "exact_div a NaN = Inr NaN"
| "exact_div (Fin x) i = Inr (Fin 0)"
| "exact_div a i = Inr NaN"

text \<open>
  The float operations \<^verbatim>\<open>a + b\<close>, \<^verbatim>\<open>a * b\<close> and \<^verbatim>\<open>a / b\<close>: the operands are doubles,
  and the exact result is rounded to a double.
\<close>

definition fadd :: "pyfloat \<Rightarrow> pyfloat \<Rightarrow> pyfloat" where
  "fadd x y = dbl (exact_add (dbl x) (dbl y))"

definition fmul :: "pyfloat \<Rightarrow> pyfloat \<Rightarrow> pyfloat" where
  "fmul x y = dbl (exact_mul (dbl x) (dbl y))"

definition py_truediv :: "pyfloat \<Rightarrow> pyfloat \<Rightarrow> py_error + pyfloat" where
  "py_truediv x y =
     (case exact_div (dbl x) (dbl y) of Inl e \<Rightarrow> Inl e | Inr v \<Rightarrow> Inr (dbl v))"

text \<open>
  The builtin \<^verbatim>\<open>min(a, b)\<close> keeps its first argument unless the second compares
  strictly less, so \<^verbatim>\<open>min(100, nan)\<close> is \<^verbatim>\<open>100\<close>.
\<close>

definition py_min :: "pyfloat \<Rightarrow> pyfloat \<Rightarrow> pyfloat" where
  "py_min a b = (if flt_less b a then b else a)"

subsection \<open>Fixed-point formatting (\<^verbatim>\<open>format(x, '.Nf')\<close>)\<close>

definition digit_char :: "nat \<Rightarrow> char" where
  "digit_char d = ''0123456789'' ! (d mod 10)"

function str_nat :: "nat \<Rightarrow> string" where
  "str_nat n = (if n < 10 then [digit_char n]
                else str_nat (n div 10) @ [digit_char (n mod 10)])"
  by pat_completeness auto
termination
  by (relation "measure id") auto

declare str_nat.simps [simp del]

text \<open>
  The exact value of the double is rounded to \<open>p\<close> decimals, ties to even, and written
  with its sign.
\<close>

definition format_f :: "nat \<Rightarrow> pyfloat \<Rightarrow> string" where
  "format_f p x =
     (case dbl x of
        NaN \<Rightarrow> ''nan''
      | PInf \<Rightarrow> ''inf''
      | NInf \<Rightarrow> ''-inf''
      | Fin q \<Rightarrow>
          (let m = round_half_even (\<bar>q\<bar> * 10 ^ p);
               ip = str_nat (m div 10 ^ p);
               fr = str_nat (m mod 10 ^ p);
               body = (if p = 0 then ip
                       else ip @ ''.'' @ replicate (p - length fr) (CHR ''0'') @ fr)
           in (if q < 0 then ''-'' else []) @ body))"

section \<open>Per-point risk classification\<close>

text \<open>The dictionary returned by \<^verbatim>\<open>assess_risk_corrected\<close>, with its four fixed keys.\<close>

record risk_assessment =
  level :: string
  color :: string
  action :: string
  description :: string

definition assess_risk_corrected :: "pyfloat \<Rightarrow> risk_assessment" where
  "assess_risk_corrected radiation_level =
     (if flt_less radiation_level (Fin (15 / 100)) then
        \<lparr>level = ''SAFE'', color = ''green'',
         action = ''No restrictions needed'',
         description = ''Within natural background range''\<rparr>
      else if flt_less radiation_level (Fin (3 / 10)) then
        \<lparr>level = ''LOW'', color = ''yellow'',
         action = ''Monitor regularly'',
         description = ''Slightly above natural background''\<rparr>
      else if flt_less radiation_level (Fin (5 / 10)) then
        \<lparr>level = ''MODERATE'', color = ''orange'',
         action = ''Investigate possible sources'',
         description = ''Above normal levels''\<rparr>
      else if flt_less radiation_level (Fin 1) then
        \<lparr>level = ''HIGH'', color = ''red'',
         action = ''Restrict prolonged access'',
         description = ''Requires attention''\<rparr>
      else
        \<lparr>level = ''SEVERE'', color = ''purple'',
         action = ''Immediate action required'',
         description = ''Emergency situation''\<rparr>)"

section \<open>Exposure estimate\<close>

text \<open>
  \<^verbatim>\<open>calculate_exposure_safety\<close> returns a dictionary from strings to strings: either
  the single key \<^verbatim>\<open>status\<close>, or five keys holding f-string renderings of the
  computed quantities (\<^verbatim>\<open>:.0f\<close> for days and dose, \<^verbatim>\<open>:.1f\<close> for the percentages).
  The guard \<^verbatim>\<open>radiation_level <= 0\<close> is a test of the double, so a positive decimal
  that rounds to zero takes the first branch. The micro sign of
  \<^verbatim>\<open>annual_dose_estimate\<close> is written as its two UTF-8 bytes.
\<close>

definition micro_sign :: string where
  "micro_sign = [CHR 0xCE, CHR 0xBC]"

definition calculate_exposure_safety :: "pyfloat \<Rightarrow> py_error + (string \<times> string) list" where
  "calculate_exposure_safety radiation_level =
     (if flt_le (dbl radiation_level) (Fin 0)
      then Inr [(''status'', ''No radiation detected'')]
      else
        (let PUBLIC_LIMIT = Fin 1000; WORKER_LIMIT = Fin 20000 in
         case py_truediv PUBLIC_LIMIT radiation_level of Inl e \<Rightarrow> Inl e
         | Inr hours_to_public_limit \<Rightarrow>
         case py_truediv WORKER_LIMIT radiation_level of Inl e \<Rightarrow> Inl e
         | Inr hours_to_worker_limit \<Rightarrow>
         case py_truediv hours_to_public_limit (Fin 8) of Inl e \<Rightarrow> Inl e
         | Inr days_to_public_limit \<Rightarrow>
         case py_truediv hours_to_worker_limit (Fin 8) of Inl e \<Rightarrow> Inl e
         | Inr days_to_worker_limit \<Rightarrow>
         (let annual_dose_8hr = fmul (fmul radiation_level (Fin 8)) (Fin 250) in
          case py_truediv annual_dose_8hr PUBLIC_LIMIT of Inl e \<Rightarrow> Inl e
          | Inr public_fraction \<Rightarrow>
          case py_truediv annual_dose_8hr WORKER_LIMIT of Inl e \<Rightarrow> Inl e
          | Inr worker_fraction \<Rightarrow>
            Inr [(''public_safety'',
                    ''Safe for '' @ format_f 0 days_to_public_limit @ '' days (8hr/day)''),
                 (''worker_safety'',
                    ''Safe for '' @ format_f 0 days_to_worker_limit @ '' days (8hr/day)''),
                 (''annual_dose_estimate'',
                    format_f 0 annual_dose_8hr @ '' '' @ micro_sign @ ''Sv/year''),
                 (''percent_of_public_limit'',
                    format_f 1 (fmul public_fraction (Fin 100)) @ ''%''),
                 (''percent_of_worker_limit'',
                    format_f 1 (fmul worker_fraction (Fin 100)) @ ''%'')])))"

section \<open>Dataset and summary statistics\<close>

text \<open>
  A row of the DataFrame built by \<^verbatim>\<open>RadiationData.get_dataframe\<close> from
  \<^verbatim>\<open>data_points\<close>; the third column is \<^verbatim>\<open>Radiation_\<close>\<mu>\<^verbatim>\<open>Sv_h\<close>.
\<close>

record reading =
  Longitude :: pyfloat
  Latitude :: pyfloat
  Radiation_uSv_h :: pyfloat

text \<open>
  The pandas reductions, as the library documents them: NaN entries are skipped, and a
  reduction over no values is NaN. The mean adds the values from left to right in double
  arithmetic and divides the sum by their number. Only the statistics that the report
  reads are modelled (\<^verbatim>\<open>std\<close> and \<^verbatim>\<open>median\<close> are computed by the source and never
  used).
\<close>

definition pd_valid :: "pyfloat list \<Rightarrow> pyfloat list" where
  "pd_valid xs = filter (\<lambda>x. x \<noteq> NaN) xs"

definition fdiv_count :: "pyfloat \<Rightarrow> nat \<Rightarrow> pyfloat" where
  "fdiv_count s n = (case dbl s of Fin a \<Rightarrow> round_double (a / of_nat n) | other \<Rightarrow> other)"

definition pd_mean :: "pyfloat list \<Rightarrow> pyfloat" where
  "pd_mean xs =
     (let vs = pd_valid xs
      in if vs = [] then NaN else fdiv_count (foldl fadd (Fin 0) vs) (length vs))"

definition pd_max :: "pyfloat list \<Rightarrow> pyfloat" where
  "pd_max xs =
     (case pd_valid xs of [] \<Rightarrow> NaN
      | v # vs \<Rightarrow> foldl (\<lambda>a b. if flt_less a b then b else a) v vs)"

definition pd_min :: "pyfloat list \<Rightarrow> pyfloat" where
  "pd_min xs =
     (case pd_valid xs of [] \<Rightarrow> NaN
      | v # vs \<Rightarrow> foldl (\<lambda>a b. if flt_less b a then b else a) v vs)"

record stats =
  stats_mean :: pyfloat
  stats_max :: pyfloat
  stats_min :: pyfloat

definition get_dataframe :: "reading list \<Rightarrow> reading list \<times> stats" where
  "get_dataframe data_points =
     (let col = map Radiation_uSv_h data_points
      in (data_points,
          \<lparr>stats_mean = pd_mean col, stats_max = pd_max col, stats_min = pd_min col\<rparr>))"

section \<open>Risk report\<close>

record hotspot =
  point :: nat
  radiation :: pyfloat
  risk :: string

text \<open>
  \<^verbatim>\<open>d[k] += 1\<close> on a dictionary kept as an association list: a missing key raises
  \<^verbatim>\<open>KeyError\<close>, a present one is incremented in place.
\<close>

fun dict_incr :: "(string \<times> nat) list \<Rightarrow> string \<Rightarrow> py_error + (string \<times> nat) list" where
  "dict_incr [] k = Inl KeyError"
| "dict_incr ((k', v) # d) k =
     (if k' = k then Inr ((k', v + 1) # d)
      else case dict_incr d k of Inl e \<Rightarrow> Inl e | Inr d' \<Rightarrow> Inr ((k', v) # d'))"

definition dict_get :: "(string \<times> 'v) list \<Rightarrow> string \<Rightarrow> py_error + 'v" where
  "dict_get d k = (case map_of d k of None \<Rightarrow> Inl KeyError | Some v \<Rightarrow> Inr v)"

definition risk_counts_init :: "(string \<times> nat) list" where
  "risk_counts_init =
     [(''SAFE'', 0), (''LOW'', 0), (''MODERATE'', 0), (''HIGH'', 0), (''SEVERE'', 0)]"

text \<open>The loop over \<^verbatim>\<open>df.iterrows()\<close>; \<open>idx\<close> is the 0-based row label.\<close>

fun report_loop ::
  "nat \<Rightarrow> reading list \<Rightarrow> (string \<times> nat) list \<Rightarrow> hotspot list
   \<Rightarrow> py_error + ((string \<times> nat) list \<times> hotspot list)" where
  "report_loop idx [] risk_counts hotspots = Inr (risk_counts, hotspots)"
| "report_loop idx (row # rows) risk_counts hotspots =
     (let risk = assess_risk_corrected (Radiation_uSv_h row) in
      case dict_incr risk_counts (level risk) of
        Inl e \<Rightarrow> Inl e
      | Inr risk_counts' \<Rightarrow>
          report_loop (idx + 1) rows risk_counts'
            (if level risk \<in> set [''MODERATE'', ''HIGH'', ''SEVERE'']
             then hotspots @
                  [\<lparr>point = idx + 1, radiation = Radiation_uSv_h row, risk = level risk\<rparr>]
             else hotspots))"

text \<open>The exposure dictionaries computed for the hotspot section, in hotspot order.\<close>

fun hotspot_exposures :: "hotspot list \<Rightarrow> py_error + (string \<times> string) list list" where
  "hotspot_exposures [] = Inr []"
| "hotspot_exposures (h # hs) =
     (case calculate_exposure_safety (radiation h) of
        Inl e \<Rightarrow> Inl e
      | Inr exposure \<Rightarrow>
          (case hotspot_exposures hs of Inl e \<Rightarrow> Inl e | Inr es \<Rightarrow> Inr (exposure # es)))"

definition compute_risk_index :: "stats \<Rightarrow> pyfloat" where
  "compute_risk_index st =
     (let max_reading = stats_max st; mean_reading = stats_mean st
      in py_min (Fin 100) (fadd (fmul max_reading (Fin 70)) (fmul mean_reading (Fin 30))))"

definition overall_assessment :: "pyfloat \<Rightarrow> string \<times> string list" where
  "overall_assessment risk_index =
     (if flt_less risk_index (Fin 30) then
        (''SAFE'',
         [''Continue routine monitoring'', ''Maintain baseline records'',
          ''No restrictions needed''])
      else if flt_less risk_index (Fin 50) then
        (''LOW'',
         [''Monitor monthly'', ''Investigate minor elevations'',
          ''Inform local authorities''])
      else if flt_less risk_index (Fin 70) then
        (''MODERATE'',
         [''Increase monitoring to weekly'',
          ''Restrict prolonged access to elevated areas'',
          ''Investigate potential sources''])
      else if flt_less risk_index (Fin 90) then
        (''HIGH'',
         [''Restrict area access'', ''Notify radiation safety officer'',
          ''Begin source investigation'', ''Implement protective measures''])
      else
        (''SEVERE'',
         [''IMMEDIATE AREA RESTRICTION'', ''Contact nuclear regulatory body'',
          ''Deploy emergency response'', ''Evacuate non-essential personnel'']))"

text \<open>
  \<^verbatim>\<open>generate_risk_report\<close> returns the rendered text; the model returns the values
  that the text is rendered from, in the order the source computes them.
\<close>

record risk_report =
  n_points :: nat
  report_stats :: stats
  risk_counts :: "(string \<times> nat) list"
  hotspots :: "hotspot list"
  risk_index :: pyfloat
  overall_risk :: string
  recommendations :: "string list"
  exposures :: "(string \<times> string) list list"

definition generate_risk_report :: "reading list \<Rightarrow> py_error + risk_report" where
  "generate_risk_report data_points =
     (case get_dataframe data_points of (df, st) \<Rightarrow>
      case report_loop 0 df risk_counts_init [] of
        Inl e \<Rightarrow> Inl e
      | Inr (rc, hs) \<Rightarrow>
          (let idx = compute_risk_index st;
               ov = overall_assessment idx
           in case hotspot_exposures hs of
                Inl e \<Rightarrow> Inl e
              | Inr es \<Rightarrow>
                  Inr \<lparr>n_points = length df, report_stats = st, risk_counts = rc,
                       hotspots = hs, risk_index = idx, overall_risk = fst ov,
                       recommendations = snd ov, exposures = es\<rparr>))"

section \<open>Risk zones\<close>

text \<open>The radius lookup of \<^verbatim>\<open>RadiationMapGenerator.add_risk_zones\<close> for one row.\<close>

definition zone_sizes :: "(string \<times> nat) list" where
  "zone_sizes =
     [(''SAFE'', 10), (''LOW'', 20), (''MODERATE'', 30), (''HIGH'', 40), (''SEVERE'', 50)]"

definition zone_radius :: "pyfloat \<Rightarrow> py_error + nat" where
  "zone_radius radiation_level =
     (let risk = assess_risk_corrected radiation_level
      in dict_get zone_sizes (level risk))"

text \<open>
  The position of a level name in the order SAFE, LOW, MODERATE, HIGH, SEVERE. The source
  has no such function; it is the ordinal rank that the monotonicity property speaks of.
\<close>

definition level_rank :: "string \<Rightarrow> nat" where
  "level_rank l =
     (if l = ''SAFE'' then 0 else if l = ''LOW'' then 1 else if l = ''MODERATE'' then 2
      else if l = ''HIGH'' then 3 else if l = ''SEVERE'' then 4 else 5)"

section \<open>Sample data\<close>

text \<open>The sample measurements that \<^verbatim>\<open>RadiationData.__init__\<close> hardcodes.\<close>

definition data_points :: "reading list" where
  "data_points =
     [\<lparr>Longitude = Fin (9035718591116404 / 10 ^ 14),
       Latitude = Fin (23837775061102857 / 10 ^ 15), Radiation_uSv_h = Fin (4385 / 10000)\<rparr>,
      \<lparr>Longitude = Fin (9035789165161599 / 10 ^ 14),
       Latitude = Fin (2383827828945288 / 10 ^ 14), Radiation_uSv_h = Fin 0\<rparr>,
      \<lparr>Longitude = Fin (9035706162131505 / 10 ^ 14),
       Latitude = Fin (23838201481146786 / 10 ^ 15), Radiation_uSv_h = Fin 0\<rparr>,
      \<lparr>Longitude = Fin (9035770007023059 / 10 ^ 14),
       Latitude = Fin (23837719225607806 / 10 ^ 15), Radiation_uSv_h = Fin 0\<rparr>]"

section \<open>Reference quantities of the exposure estimate\<close>

text \<open>
  The quantities that the specification (section 4.2) gives for a dose-rate \<open>r > 0\<close>,
  written from its formulas, as exact numbers. The source computes them in double
  arithmetic and stores their renderings; they serve to compare the stored text with.
\<close>

definition spec_days_to_public_limit :: "rat \<Rightarrow> rat" where
  "spec_days_to_public_limit r = (1000 / r) / 8"

definition spec_days_to_worker_limit :: "rat \<Rightarrow> rat" where
  "spec_days_to_worker_limit r = (20000 / r) / 8"

definition spec_annual_dose_8hr :: "rat \<Rightarrow> rat" where
  "spec_annual_dose_8hr r = r * 8 * 250"

definition spec_percent_of_public_limit :: "rat \<Rightarrow> rat" where
  "spec_percent_of_public_limit r = spec_annual_dose_8hr r / 1000 * 100"

definition spec_percent_of_worker_limit :: "rat \<Rightarrow> rat" where
  "spec_percent_of_worker_limit r = spec_annual_dose_8hr r / 20000 * 100"

section \<open>Rounding to binary64: auxiliary facts\<close>

lemma bit_length_0: "bit_length 0 = 0"
  by (simp add: bit_length.simps)

lemma bit_length_pos: "0 < n \<Longrightarrow> bit_length n = Suc (bit_length (n div 2))"
  by (subst bit_length.simps) simp

lemma bit_length_bounds:
  "0 < n \<Longrightarrow> 2 ^ (bit_length n - 1) \<le> n \<and> n < 2 ^ bit_length n"
proof (induction n rule: less_induct)
  case (less n)
  have bl: "bit_length n = Suc (bit_length (n div 2))"
    using less.prems by (rule bit_length_pos)
  show ?case
  proof (cases "n = 1")
    case True
    then show ?thesis using bl by (simp add: bit_length_0)
  next
    case False
    with less.prems have n2: "0 < n div 2" "n div 2 < n" by auto
    from less.IH [OF n2(2) n2(1)]
    have ih: "2 ^ (bit_length (n div 2) - 1) \<le> n div 2" "n div 2 < 2 ^ bit_length (n div 2)"
      by auto
    have pos: "0 < bit_length (n div 2)"
      using n2(1) by (simp add: bit_length_pos)
    have "(2::nat) ^ (bit_length n - 1) = 2 * 2 ^ (bit_length (n div 2) - 1)"
      using pos bl by (cases "bit_length (n div 2)") auto
    also have "\<dots> \<le> 2 * (n div 2)" using ih(1) by simp
    also have "\<dots> \<le> n" by simp
    finally have lo: "2 ^ (bit_length n - 1) \<le> n" .
    have "n < 2 * (n div 2) + 2" by presburger
    also have "\<dots> \<le> 2 * 2 ^ bit_length (n div 2)" using ih(2) by simp
    finally have hi: "n < 2 ^ bit_length n" using bl by simp
    from lo hi show ?thesis by simp
  qed
qed

lemma of_nat_le_pow2: "n \<le> 2 ^ k \<Longrightarrow> (of_nat n :: rat) \<le> 2 ^ k"
  by (metis of_nat_le_iff of_nat_numeral of_nat_power)

lemma pow2_le_of_nat: "2 ^ k \<le> n \<Longrightarrow> (2::rat) ^ k \<le> of_nat n"
  by (metis of_nat_le_iff of_nat_numeral of_nat_power)

lemma ilog2_bounds:
  assumes "0 < a"
  shows "power_int 2 (ilog2 a) \<le> a \<and> a < power_int 2 (ilog2 a + 1)"
proof (cases "1 \<le> a")
  case True
  define n where "n = nat \<lfloor>a\<rfloor>"
  have n1: "0 < n" using True by (simp add: n_def)
  have na: "of_nat n \<le> a" "a < of_nat n + 1"
    using True unfolding n_def by (simp_all add: of_nat_nat) linarith+
  from bit_length_bounds [OF n1]
  have b: "2 ^ (bit_length n - 1) \<le> n" "n < 2 ^ bit_length n" by auto
  have blpos: "0 < bit_length n" using n1 by (simp add: bit_length_pos)
  have e: "ilog2 a = int (bit_length n - 1)"
    using True blpos by (simp add: ilog2_def n_def)
  have e1: "ilog2 a + 1 = int (bit_length n)"
    using e blpos by simp
  have p1: "(2::rat) ^ (bit_length n - 1) \<le> of_nat n"
    using b(1) by (rule pow2_le_of_nat)
  have "Suc n \<le> 2 ^ bit_length n" using b(2) by simp
  then have "(of_nat (Suc n) :: rat) \<le> 2 ^ bit_length n"
    by (rule of_nat_le_pow2)
  then have p2: "of_nat n + 1 \<le> (2::rat) ^ bit_length n" by (simp add: add.commute)
  have lo: "power_int 2 (ilog2 a) \<le> a"
    unfolding e power_int_of_nat using p1 na(1) by linarith
  have hi: "a < power_int 2 (ilog2 a + 1)"
    unfolding e1 power_int_of_nat using p2 na(2) by linarith
  from lo hi show ?thesis by simp
next
  case False
  then have a1: "a < 1" by simp
  define c where "c = nat \<lceil>1 / a\<rceil>"
  have inv: "1 < 1 / a" using assms a1 by simp
  then have c2: "2 \<le> c" unfolding c_def by linarith
  have ca: "1 / a \<le> of_nat c" "of_nat c - 1 < 1 / a"
    using inv unfolding c_def by (simp_all add: of_nat_nat) linarith+
  define k where "k = bit_length (c - 1)"
  have c1: "0 < c - 1" using c2 by simp
  from bit_length_bounds [OF c1]
  have b: "2 ^ (k - 1) \<le> c - 1" "c - 1 < 2 ^ k" by (auto simp: k_def)
  have kpos: "0 < k" using c1 by (simp add: k_def bit_length_pos)
  have e: "ilog2 a = - int k"
    using False by (simp add: ilog2_def c_def k_def)
  have e1: "ilog2 a + 1 = - int (k - 1)"
    using e kpos by simp
  have "c \<le> 2 ^ k" using b(2) by simp
  then have "(of_nat c :: rat) \<le> 2 ^ k" by (rule of_nat_le_pow2)
  then have "1 / a \<le> 2 ^ k" using ca(1) by linarith
  then have q1: "1 / 2 ^ k \<le> a"
    using assms by (simp add: field_simps)
  have "(2::rat) ^ (k - 1) \<le> of_nat (c - 1)"
    using b(1) by (rule pow2_le_of_nat)
  also have "\<dots> = of_nat c - 1" using c2 by (simp add: of_nat_diff)
  also have "\<dots> < 1 / a" by (rule ca(2))
  finally have q2: "a < 1 / 2 ^ (k - 1)"
    using assms by (simp add: field_simps)
  have lo: "power_int 2 (ilog2 a) \<le> a"
    unfolding e using q1 by (simp add: power_int_minus field_simps)
  have hi: "a < power_int 2 (ilog2 a + 1)"
    unfolding e1 using q2 by (simp add: power_int_minus field_simps)
  from lo hi show ?thesis by simp
qed


lemma ilog2_unique:
  assumes "0 < a" and "power_int 2 e \<le> a" and "a < power_int 2 (e + 1)"
  shows "ilog2 a = e"
proof -
  from ilog2_bounds [OF assms(1)]
  have b: "power_int 2 (ilog2 a) \<le> a" "a < power_int 2 (ilog2 a + 1)" by auto
  have "\<not> e + 1 \<le> ilog2 a"
  proof
    assume "e + 1 \<le> ilog2 a"
    then have "power_int (2::rat) (e + 1) \<le> power_int 2 (ilog2 a)"
      by (intro power_int_increasing) auto
    with b(1) assms(3) show False by linarith
  qed
  moreover have "\<not> ilog2 a + 1 \<le> e"
  proof
    assume "ilog2 a + 1 \<le> e"
    then have "power_int (2::rat) (ilog2 a + 1) \<le> power_int 2 e"
      by (intro power_int_increasing) auto
    with b(2) assms(2) show False by linarith
  qed
  ultimately show ?thesis by linarith
qed

lemma round_half_even_near:
  assumes "of_nat n - 1 / 2 < q" and "q < of_nat n + 1 / 2"
  shows "round_half_even q = n"
proof (cases "of_nat n \<le> q")
  case True
  then have "\<lfloor>q\<rfloor> = int n"
    using assms by (simp add: floor_eq_iff)
  then show ?thesis
    using assms by (simp add: round_half_even_def Let_def)
next
  case False
  then have fl: "\<lfloor>q\<rfloor> = int n - 1"
    using assms by (simp add: floor_eq_iff)
  show ?thesis
  proof (cases n)
    case 0
    then show ?thesis
      using fl assms False by (simp add: round_half_even_def Let_def)
  next
    case (Suc m)
    then have "nat \<lfloor>q\<rfloor> = m"
      using fl by simp
    then show ?thesis
      using assms False Suc by (simp add: round_half_even_def Let_def)
  qed
qed

lemma round_double_pos:
  assumes "0 < q" and "- 1022 \<le> e" and "e < 1023"
    and "power_int 2 e \<le> q" and "q < power_int 2 (e + 1)"
    and "m \<le> 2 ^ 53"
    and "of_nat m - 1 / 2 < q / power_int 2 (e - 52)"
    and "q / power_int 2 (e - 52) < of_nat m + 1 / 2"
    and "v = of_nat m * power_int 2 (e - 52)"
  shows "round_double q = Fin v"
proof -
  have il: "ilog2 \<bar>q\<bar> = e"
    using assms(1,4,5) by (intro ilog2_unique) auto
  have mx: "max e (- 1022) = e" using assms(2) by simp
  have rh: "round_half_even (\<bar>q\<bar> / power_int 2 (e - 52)) = m"
    using assms(1,7,8) by (intro round_half_even_near) auto
  have "(of_nat m :: rat) \<le> 2 ^ 53"
    using assms(6) by (rule of_nat_le_pow2)
  then have "of_nat m * power_int 2 (e - 52) \<le> (2::rat) ^ 53 * power_int 2 (e - 52)"
    by (intro mult_right_mono) auto
  also have "\<dots> = power_int 2 (e + 1)"
    using power_int_add [of "2::rat" 53 "e - 52"] by (simp add: add.commute)
  also have "\<dots> < power_int 2 1024"
    using assms(3) by (intro power_int_strict_increasing) auto
  finally have "\<not> power_int 2 1024 \<le> of_nat m * power_int (2::rat) (e - 52)" by simp
  then show ?thesis
    using assms(1,9) il mx rh by (simp add: round_double_def Let_def)
qed

lemma round_double_minus: "round_double (- q) = fneg (round_double q)"
  by (simp add: round_double_def Let_def)


lemma round_double_0: "round_double 0 = Fin 0"
  by (simp add: round_double_def)

lemma round_double_nonneg:
  "0 \<le> q \<Longrightarrow> (\<exists>v. round_double q = Fin v \<and> 0 \<le> v) \<or> round_double q = PInf"
  by (auto simp: round_double_def Let_def)

lemma round_double_nonpos:
  "q \<le> 0 \<Longrightarrow> (\<exists>v. round_double q = Fin v \<and> v \<le> 0) \<or> round_double q = NInf"
  by (auto simp: round_double_def Let_def mult_nonneg_nonneg)

lemma round_double_not_NaN: "round_double q \<noteq> NaN"
  by (simp add: round_double_def Let_def)

lemma round_double_8: "round_double 8 = Fin 8"
  by (rule round_double_pos [where e = 3 and m = 4503599627370496]) simp_all

lemma round_double_30: "round_double 30 = Fin 30"
  by (rule round_double_pos [where e = 4 and m = 8444249301319680]) simp_all

lemma round_double_70: "round_double 70 = Fin 70"
  by (rule round_double_pos [where e = 6 and m = 4925812092436480]) simp_all

lemma round_double_100: "round_double 100 = Fin 100"
  by (rule round_double_pos [where e = 6 and m = 7036874417766400]) simp_all

lemma round_double_250: "round_double 250 = Fin 250"
  by (rule round_double_pos [where e = 7 and m = 8796093022208000]) simp_all

lemma round_double_1000: "round_double 1000 = Fin 1000"
  by (rule round_double_pos [where e = 9 and m = 8796093022208000]) simp_all

lemma round_double_20000: "round_double 20000 = Fin 20000"
  by (rule round_double_pos [where e = 14 and m = 5497558138880000]) simp_all

lemma round_half_even_ge_nat:
  assumes "of_nat n \<le> x"
  shows "n \<le> round_half_even x"
proof -
  have "int n \<le> \<lfloor>x\<rfloor>" using assms by (simp add: le_floor_iff)
  then have "n \<le> nat \<lfloor>x\<rfloor>" by linarith
  then show ?thesis by (simp add: round_half_even_def Let_def)
qed

lemma round_double_overflow:
  assumes "power_int 2 1024 \<le> q"
  shows "round_double q = PInf"
proof -
  have p: "(0::rat) < power_int 2 1024" by simp
  with assms have q0: "0 < q" by linarith
  from ilog2_bounds [OF q0]
  have b: "power_int 2 (ilog2 q) \<le> q" "q < power_int 2 (ilog2 q + 1)" by auto
  have e: "1024 \<le> ilog2 q"
  proof (rule ccontr)
    assume "\<not> 1024 \<le> ilog2 q"
    then have "ilog2 q + 1 \<le> 1024" by simp
    then have "power_int (2::rat) (ilog2 q + 1) \<le> power_int 2 1024"
      by (intro power_int_increasing) auto
    with b(2) assms show False by linarith
  qed
  then have mx: "max (ilog2 q) (- 1022) = ilog2 q" by simp
  let ?u = "power_int (2::rat) (ilog2 q - 52)"
  have u0: "0 < ?u" by simp
  have split: "power_int (2::rat) (ilog2 q) = 2 ^ 52 * ?u"
    using power_int_add [of "2::rat" 52 "ilog2 q - 52"] by simp
  then have "2 ^ 52 * ?u \<le> q" using b(1) by simp
  then have "(2::rat) ^ 52 \<le> q / ?u"
    using u0 by (simp add: pos_le_divide_eq)
  then have "of_nat (2 ^ 52) \<le> q / ?u" by simp
  then have "2 ^ 52 \<le> round_half_even (q / ?u)"
    by (rule round_half_even_ge_nat)
  then have "(2::rat) ^ 52 \<le> of_nat (round_half_even (q / ?u))"
    by (rule pow2_le_of_nat)
  then have "2 ^ 52 * ?u \<le> of_nat (round_half_even (q / ?u)) * ?u"
    using u0 by (intro mult_right_mono) auto
  moreover have "power_int (2::rat) 1024 \<le> power_int 2 (ilog2 q)"
    using e by (intro power_int_increasing) auto
  ultimately have "power_int 2 1024 \<le> of_nat (round_half_even (q / ?u)) * ?u"
    using split by linarith
  then show ?thesis
    using q0 mx by (simp add: round_double_def Let_def)
qed

lemma round_double_top:
  assumes "power_int 2 1023 \<le> q" and "q < power_int 2 1024"
    and "m < 2 ^ 53"
    and "of_nat m - 1 / 2 < q / power_int 2 971"
    and "q / power_int 2 971 < of_nat m + 1 / 2"
    and "v = of_nat m * power_int 2 971"
  shows "round_double q = Fin v"
proof -
  have "(0::rat) < power_int 2 1023" by simp
  with assms(1) have q0: "0 < q" by linarith
  have il: "ilog2 \<bar>q\<bar> = 1023"
    using q0 assms(1,2) by (intro ilog2_unique) auto
  have rh: "round_half_even (\<bar>q\<bar> / power_int 2 971) = m"
    using q0 assms(4,5) by (intro round_half_even_near) auto
  have "Suc m \<le> 2 ^ 53" using assms(3) by simp
  then have "(of_nat (Suc m) :: rat) \<le> 2 ^ 53" by (rule of_nat_le_pow2)
  then have "(of_nat m :: rat) < 2 ^ 53" by simp
  then have "of_nat m * power_int 2 971 < (2::rat) ^ 53 * power_int 2 971"
    by (intro mult_strict_right_mono) auto
  also have "\<dots> = power_int 2 1024"
    using power_int_add [of "2::rat" 53 971] by simp
  finally have "\<not> power_int 2 1024 \<le> of_nat m * power_int (2::rat) 971" by simp
  then show ?thesis
    using q0 assms(6) il rh by (simp add: round_double_def Let_def)
qed

lemma round_double_sub:
  assumes "0 < q" and "q < power_int 2 (- 1022)"
    and "of_nat m - 1 / 2 < q / power_int 2 (- 1074)"
    and "q / power_int 2 (- 1074) < of_nat m + 1 / 2"
    and "v = of_nat m * power_int 2 (- 1074)"
  shows "round_double q = Fin v"
proof -
  from ilog2_bounds [OF assms(1)]
  have b: "power_int 2 (ilog2 q) \<le> q" "q < power_int 2 (ilog2 q + 1)" by auto
  have "\<not> - 1022 \<le> ilog2 q"
  proof
    assume "- 1022 \<le> ilog2 q"
    then have "power_int (2::rat) (- 1022) \<le> power_int 2 (ilog2 q)"
      by (intro power_int_increasing) auto
    with b(1) assms(2) show False by linarith
  qed
  then have mx: "max (ilog2 \<bar>q\<bar>) (- 1022) - 52 = - 1074"
    using assms(1) by simp
  let ?u = "power_int (2::rat) (- 1074)"
  have u0: "0 < ?u" by simp
  have rh: "round_half_even (\<bar>q\<bar> / ?u) = m"
    using assms(1,3,4) by (intro round_half_even_near) auto
  have "of_nat m < q / ?u + 1 / 2" using assms(3) by linarith
  then have "of_nat m * ?u < (q / ?u + 1 / 2) * ?u"
    using u0 by (simp add: mult_less_cancel_right)
  also have "\<dots> = q + ?u / 2"
    using u0 by (simp add: field_simps)
  also have "\<dots> < power_int 2 (- 1022) + ?u / 2"
    using assms(2) by simp
  also have "\<dots> \<le> 1 + 1"
  proof -
    have "power_int (2::rat) (- 1022) \<le> power_int 2 0"
      by (intro power_int_increasing) auto
    moreover have "?u \<le> power_int 2 0"
      by (intro power_int_increasing) auto
    ultimately show ?thesis by simp
  qed
  also have "\<dots> \<le> power_int (2::rat) 1024"
  proof -
    have "power_int (2::rat) 1 \<le> power_int 2 1024"
      by (intro power_int_increasing) auto
    then show ?thesis by simp
  qed
  finally have "\<not> power_int 2 1024 \<le> of_nat m * ?u" by simp
  then show ?thesis
    using assms(1,5) mx rh by (simp add: round_double_def Let_def)
qed

lemma round_half_even_tie:
  assumes "q = of_nat n + 1 / 2"
  shows "round_half_even q = (if even n then n else n + 1)"
proof -
  have "\<lfloor>q\<rfloor> = int n"
    unfolding assms by (simp add: floor_eq_iff)
  then show ?thesis
    unfolding assms by (simp add: round_half_even_def Let_def)
qed

lemma round_double_tie:
  assumes "0 < q" and "- 1022 \<le> e" and "e < 1023"
    and "power_int 2 e \<le> q" and "q < power_int 2 (e + 1)"
    and "n < 2 ^ 53"
    and "q / power_int 2 (e - 52) = of_nat n + 1 / 2"
    and "v = of_nat (if even n then n else n + 1) * power_int 2 (e - 52)"
  shows "round_double q = Fin v"
proof -
  let ?m = "if even n then n else n + 1"
  have il: "ilog2 \<bar>q\<bar> = e"
    using assms(1,4,5) by (intro ilog2_unique) auto
  have mx: "max e (- 1022) = e" using assms(2) by simp
  have rh: "round_half_even (\<bar>q\<bar> / power_int 2 (e - 52)) = ?m"
    using assms(1,7) by (simp add: round_half_even_tie)
  have "?m \<le> 2 ^ 53" using assms(6) by simp
  then have "(of_nat ?m :: rat) \<le> 2 ^ 53"
    by (rule of_nat_le_pow2)
  then have "of_nat ?m * power_int 2 (e - 52) \<le> (2::rat) ^ 53 * power_int 2 (e - 52)"
    by (intro mult_right_mono) auto
  also have "\<dots> = power_int 2 (e + 1)"
    using power_int_add [of "2::rat" 53 "e - 52"] by (simp add: add.commute)
  also have "\<dots> < power_int 2 1024"
    using assms(3) by (intro power_int_strict_increasing) auto
  finally have "\<not> power_int 2 1024 \<le> of_nat ?m * power_int (2::rat) (e - 52)" by simp
  then show ?thesis
    using assms(1,8) il mx rh by (simp add: round_double_def Let_def)
qed

section \<open>Classification: auxiliary facts\<close>

lemma assess_cases:
  "assess_risk_corrected x \<in> set
     [\<lparr>level = ''SAFE'', color = ''green'', action = ''No restrictions needed'',
        description = ''Within natural background range''\<rparr>,
      \<lparr>level = ''LOW'', color = ''yellow'', action = ''Monitor regularly'',
        description = ''Slightly above natural background''\<rparr>,
      \<lparr>level = ''MODERATE'', color = ''orange'', action = ''Investigate possible sources'',
        description = ''Above normal levels''\<rparr>,
      \<lparr>level = ''HIGH'', color = ''red'', action = ''Restrict prolonged access'',
        description = ''Requires attention''\<rparr>,
      \<lparr>level = ''SEVERE'', color = ''purple'', action = ''Immediate action required'',
        description = ''Emergency situation''\<rparr>]"
  by (simp add: assess_risk_corrected_def)

lemma level_assess:
  "level (assess_risk_corrected x) =
     (if flt_less x (Fin (15 / 100)) then ''SAFE''
      else if flt_less x (Fin (3 / 10)) then ''LOW''
      else if flt_less x (Fin (5 / 10)) then ''MODERATE''
      else if flt_less x (Fin 1) then ''HIGH'' else ''SEVERE'')"
  by (simp add: assess_risk_corrected_def)

lemma level_in_five:
  "level (assess_risk_corrected x) \<in> set [''SAFE'', ''LOW'', ''MODERATE'', ''HIGH'', ''SEVERE'']"
  by (simp add: level_assess)

lemma rank_assess:
  "level_rank (level (assess_risk_corrected x)) =
     (if flt_less x (Fin (15 / 100)) then 0
      else if flt_less x (Fin (3 / 10)) then 1
      else if flt_less x (Fin (5 / 10)) then 2
      else if flt_less x (Fin 1) then 3 else 4)"
  by (simp add: level_assess level_rank_def)

section \<open>Report generation: auxiliary facts\<close>

lemma dict_incr_present:
  "k \<in> set (map fst d) \<Longrightarrow>
   \<exists>d'. dict_incr d k = Inr d' \<and> map fst d' = map fst d \<and>
        sum_list (map snd d') = Suc (sum_list (map snd d))"
proof (induction d)
  case Nil
  then show ?case by simp
next
  case (Cons p d)
  obtain k' v where p: "p = (k', v)" by (cases p)
  show ?case
  proof (cases "k' = k")
    case True
    with p show ?thesis by simp
  next
    case False
    with Cons.prems p have "k \<in> set (map fst d)" by auto
    from Cons.IH [OF this] obtain d' where
      "dict_incr d k = Inr d'" "map fst d' = map fst d"
      "sum_list (map snd d') = Suc (sum_list (map snd d))" by blast
    with False p show ?thesis by simp
  qed
qed

lemma report_loop_total:
  "map fst rc = [''SAFE'', ''LOW'', ''MODERATE'', ''HIGH'', ''SEVERE''] \<Longrightarrow>
   \<exists>rc' hs'. report_loop i rows rc hs = Inr (rc', hs') \<and>
      map fst rc' = [''SAFE'', ''LOW'', ''MODERATE'', ''HIGH'', ''SEVERE''] \<and>
      sum_list (map snd rc') = sum_list (map snd rc) + length rows"
proof (induction rows arbitrary: i rc hs)
  case Nil
  then show ?case by simp
next
  case (Cons row rows)
  let ?k = "level (assess_risk_corrected (Radiation_uSv_h row))"
  have "?k \<in> set (map fst rc)"
    using level_in_five [of "Radiation_uSv_h row"] Cons.prems by simp
  from dict_incr_present [OF this] obtain d' where
    d': "dict_incr rc ?k = Inr d'" "map fst d' = map fst rc"
        "sum_list (map snd d') = Suc (sum_list (map snd rc))" by blast
  have keys: "map fst d' = [''SAFE'', ''LOW'', ''MODERATE'', ''HIGH'', ''SEVERE'']"
    using d'(2) Cons.prems by simp
  show ?case
    using Cons.IH [OF keys] d'(1) d'(3) by (simp add: Let_def)
qed

lemma py_truediv_total: "dbl y \<noteq> Fin 0 \<Longrightarrow> \<exists>v. py_truediv x y = Inr v"
  by (cases "dbl y"; cases "dbl x") (simp_all add: py_truediv_def)

lemma dbl_positive_nonzero: "\<not> flt_le (dbl x) (Fin 0) \<Longrightarrow> dbl x \<noteq> Fin 0"
  by auto

lemma calculate_exposure_safety_total:
  "\<exists>d. calculate_exposure_safety x = Inr d"
proof (cases "flt_le (dbl x) (Fin 0)")
  case True
  then show ?thesis by (simp add: calculate_exposure_safety_def)
next
  case False
  then have nz: "dbl x \<noteq> Fin 0" by (rule dbl_positive_nonzero)
  obtain hp where hp: "py_truediv (Fin 1000) x = Inr hp"
    using py_truediv_total [OF nz] by blast
  obtain hw where hw: "py_truediv (Fin 20000) x = Inr hw"
    using py_truediv_total [OF nz] by blast
  have c8: "dbl (Fin 8) \<noteq> Fin 0" by (simp add: round_double_8)
  have c1000: "dbl (Fin 1000) \<noteq> Fin 0" by (simp add: round_double_1000)
  have c20000: "dbl (Fin 20000) \<noteq> Fin 0" by (simp add: round_double_20000)
  obtain dp where dp: "py_truediv hp (Fin 8) = Inr dp"
    using py_truediv_total [OF c8] by blast
  obtain dw where dw: "py_truediv hw (Fin 8) = Inr dw"
    using py_truediv_total [OF c8] by blast
  obtain pf where pf: "py_truediv (fmul (fmul x (Fin 8)) (Fin 250)) (Fin 1000) = Inr pf"
    using py_truediv_total [OF c1000] by blast
  obtain wf where wf: "py_truediv (fmul (fmul x (Fin 8)) (Fin 250)) (Fin 20000) = Inr wf"
    using py_truediv_total [OF c20000] by blast
  show ?thesis
    using False hp hw dp dw pf wf by (simp add: calculate_exposure_safety_def Let_def)
qed

lemma hotspot_exposures_total: "\<exists>es. hotspot_exposures hs = Inr es"
proof (induction hs)
  case Nil
  then show ?case by simp
next
  case (Cons h hs)
  obtain d where "calculate_exposure_safety (radiation h) = Inr d"
    using calculate_exposure_safety_total by blast
  with Cons show ?case by auto
qed

lemma generate_risk_report_total:
  "\<exists>rep. generate_risk_report ds = Inr rep \<and>
     n_points rep = length ds \<and>
     report_stats rep = snd (get_dataframe ds) \<and>
     map fst (risk_counts rep) = [''SAFE'', ''LOW'', ''MODERATE'', ''HIGH'', ''SEVERE''] \<and>
     sum_list (map snd (risk_counts rep)) = length ds \<and>
     risk_index rep = compute_risk_index (snd (get_dataframe ds)) \<and>
     overall_risk rep = fst (overall_assessment (risk_index rep)) \<and>
     recommendations rep = snd (overall_assessment (risk_index rep))"
proof -
  have keys: "map fst risk_counts_init = [''SAFE'', ''LOW'', ''MODERATE'', ''HIGH'', ''SEVERE'']"
    by (simp add: risk_counts_init_def)
  from report_loop_total [OF keys, of 0 ds "[]"] obtain rc hs where
    loop: "report_loop 0 ds risk_counts_init [] = Inr (rc, hs)"
      "map fst rc = [''SAFE'', ''LOW'', ''MODERATE'', ''HIGH'', ''SEVERE'']"
      "sum_list (map snd rc) = sum_list (map snd risk_counts_init) + length ds" by auto
  obtain es where es: "hotspot_exposures hs = Inr es"
    using hotspot_exposures_total by blast
  have zero: "sum_list (map snd risk_counts_init) = 0"
    by (simp add: risk_counts_init_def)
  show ?thesis
    using loop es zero by (simp add: generate_risk_report_def get_dataframe_def Let_def)
qed

section \<open>Formatting: auxiliary facts\<close>

lemma str_nat_small: "n < 10 \<Longrightarrow> str_nat n = [digit_char n]"
  by (simp add: str_nat.simps)

lemma str_nat_big: "\<not> n < 10 \<Longrightarrow> str_nat n = str_nat (n div 10) @ [digit_char (n mod 10)]"
  by (subst str_nat.simps) simp

lemma format_f_eval:
  "round_double q = Fin q' \<Longrightarrow> 0 \<le> q' \<Longrightarrow>
   of_nat m - 1 / 2 < q' * 10 ^ p \<Longrightarrow> q' * 10 ^ p < of_nat m + 1 / 2 \<Longrightarrow>
   format_f p (Fin q) =
     (if p = 0 then str_nat m
      else str_nat (m div 10 ^ p) @ ''.'' @
           replicate (p - length (str_nat (m mod 10 ^ p))) (CHR ''0'') @
           str_nat (m mod 10 ^ p))"
  using round_half_even_near [of m "q' * 10 ^ p"] by (simp add: format_f_def Let_def)

lemmas str_nat_eval = str_nat_small str_nat_big digit_char_def

section \<open>Risk index on non-negative readings: auxiliary facts\<close>

lemma dbl_nonneg: "flt_le (Fin 0) x \<Longrightarrow> flt_le (Fin 0) (dbl x)"
proof (cases x)
  case (Fin q)
  assume "flt_le (Fin 0) x"
  with Fin have "0 \<le> q" by simp
  from round_double_nonneg [OF this] Fin show ?thesis by auto
qed simp_all

lemma fmul_nonneg:
  assumes "flt_le (Fin 0) x" and "0 < c" and "round_double c = Fin c"
  shows "flt_le (Fin 0) (fmul x (Fin c))"
proof -
  have "flt_le (Fin 0) (exact_mul (dbl x) (Fin c))"
    using dbl_nonneg [OF assms(1)] assms(2)
    by (cases "dbl x") (simp_all add: inf_times_def)
  from dbl_nonneg [OF this] show ?thesis
    using assms(3) by (simp add: fmul_def)
qed

lemma fadd_nonneg:
  assumes "flt_le (Fin 0) x" and "flt_le (Fin 0) y"
  shows "flt_le (Fin 0) (fadd x y)"
proof -
  have "flt_le (Fin 0) (exact_add (dbl x) (dbl y))"
    using dbl_nonneg [OF assms(1)] dbl_nonneg [OF assms(2)]
    by (cases "dbl x"; cases "dbl y") simp_all
  from dbl_nonneg [OF this] show ?thesis
    by (simp add: fadd_def)
qed

lemma aggregate_index_in_range:
  assumes "flt_le (Fin 0) (stats_max st)" and "flt_le (Fin 0) (stats_mean st)"
  shows "flt_le (Fin 0) (compute_risk_index st) \<and> flt_le (compute_risk_index st) (Fin 100)"
proof -
  let ?x = "fadd (fmul (stats_max st) (Fin 70)) (fmul (stats_mean st) (Fin 30))"
  have "flt_le (Fin 0) ?x"
    using assms by (intro fadd_nonneg fmul_nonneg) (simp_all add: round_double_70 round_double_30)
  then show ?thesis
    by (cases ?x) (auto simp: compute_risk_index_def py_min_def)
qed


lemma foldl_fadd_nonneg:
  "flt_le (Fin 0) a \<Longrightarrow> (\<forall>x \<in> set xs. flt_le (Fin 0) x) \<Longrightarrow>
   flt_le (Fin 0) (foldl fadd a xs)"
  by (induction xs arbitrary: a) (simp_all add: fadd_nonneg)

lemma foldl_max_nonneg:
  "flt_le (Fin 0) a \<Longrightarrow> (\<forall>x \<in> set xs. flt_le (Fin 0) x) \<Longrightarrow>
   flt_le (Fin 0) (foldl (\<lambda>a b. if flt_less a b then b else a) a xs)"
  by (induction xs arbitrary: a) simp_all

lemma fdiv_count_nonneg: "flt_le (Fin 0) s \<Longrightarrow> flt_le (Fin 0) (fdiv_count s n)"
proof -
  assume "flt_le (Fin 0) s"
  from dbl_nonneg [OF this] show ?thesis
  proof (cases "dbl s")
    case (Fin a)
    assume "flt_le (Fin 0) (dbl s)"
    with Fin have "0 \<le> a / of_nat n" by simp
    from round_double_nonneg [OF this] Fin show ?thesis
      by (auto simp: fdiv_count_def)
  qed (simp_all add: fdiv_count_def)
qed

lemma stats_nonneg:
  assumes "ds \<noteq> []" and "\<forall>d \<in> set ds. flt_le (Fin 0) (Radiation_uSv_h d)"
  shows "flt_le (Fin 0) (stats_max (snd (get_dataframe ds))) \<and>
         flt_le (Fin 0) (stats_mean (snd (get_dataframe ds)))"
proof -
  let ?col = "map Radiation_uSv_h ds"
  have nn: "\<forall>x \<in> set ?col. flt_le (Fin 0) x" using assms(2) by simp
  have "\<forall>x \<in> set ?col. x \<noteq> NaN"
  proof
    fix x assume "x \<in> set ?col"
    with nn have "flt_le (Fin 0) x" by blast
    then show "x \<noteq> NaN" by auto
  qed
  then have valid: "pd_valid ?col = ?col"
    by (simp add: pd_valid_def)
  obtain v vs where col: "?col = v # vs"
    using assms(1) by (cases ds) auto
  have v: "flt_le (Fin 0) v" and vs: "\<forall>x \<in> set vs. flt_le (Fin 0) x"
    using nn col by auto
  have valid': "pd_valid (v # vs) = v # vs"
    using valid col by simp
  have mx: "flt_le (Fin 0) (pd_max ?col)"
    using foldl_max_nonneg [OF v vs] by (simp add: pd_max_def col valid')
  have "flt_le (Fin 0) (foldl fadd (Fin 0) ?col)"
    using nn by (intro foldl_fadd_nonneg) simp_all
  then have mn: "flt_le (Fin 0) (pd_mean ?col)"
    using fdiv_count_nonneg [of "foldl fadd (Fin 0) ?col" "length ?col"] col
    by (simp add: pd_mean_def valid' Let_def)
  from mx mn show ?thesis by (simp add: get_dataframe_def Let_def)
qed

lemma report_index_in_range:
  assumes "ds \<noteq> []" and "\<forall>d \<in> set ds. flt_le (Fin 0) (Radiation_uSv_h d)"
  shows "\<exists>rep. generate_risk_report ds = Inr rep \<and>
           flt_le (Fin 0) (risk_index rep) \<and> flt_le (risk_index rep) (Fin 100)"
proof -
  from stats_nonneg [OF assms]
  have "flt_le (Fin 0) (compute_risk_index (snd (get_dataframe ds))) \<and>
        flt_le (compute_risk_index (snd (get_dataframe ds))) (Fin 100)"
    by (intro aggregate_index_in_range) simp_all
  with generate_risk_report_total [of ds] show ?thesis by auto
qed

section \<open>Worked evaluations\<close>

text \<open>
  The sample scenario, and the exposure estimate, the risk index and the mean at inputs
  where rounding to doubles decides the result: decimal ties, a cut point of the index,
  an overflow, the least positive double and a decimal that rounds to zero.
\<close>

lemma scenario_report:
  "\<exists>rep. generate_risk_report
       [\<lparr>Longitude = a1, Latitude = b1, Radiation_uSv_h = Fin (4385 / 10000)\<rparr>,
        \<lparr>Longitude = a2, Latitude = b2, Radiation_uSv_h = Fin 0\<rparr>,
        \<lparr>Longitude = a3, Latitude = b3, Radiation_uSv_h = Fin 0\<rparr>,
        \<lparr>Longitude = a4, Latitude = b4, Radiation_uSv_h = Fin 0\<rparr>] = Inr rep \<and>
     n_points rep = 4 \<and>
     stats_mean (report_stats rep) = dbl (Fin (109625 / 1000000)) \<and>
     stats_max (report_stats rep) = Fin (4385 / 10000) \<and>
     stats_min (report_stats rep) = Fin 0 \<and>
     risk_counts rep =
       [(''SAFE'', 3), (''LOW'', 0), (''MODERATE'', 1), (''HIGH'', 0), (''SEVERE'', 0)] \<and>
     hotspots rep =
       [\<lparr>point = 1, radiation = Fin (4385 / 10000), risk = ''MODERATE''\<rparr>] \<and>
     risk_index rep =
       py_min (Fin 100)
         (fadd (fmul (Fin (4385 / 10000)) (Fin 70)) (fmul (Fin (109625 / 1000000)) (Fin 30))) \<and>
     risk_index rep = dbl (Fin (3398375 / 100000)) \<and>
     format_f 2 (risk_index rep) = ''33.98'' \<and>
     overall_risk rep = ''LOW''"
proof -
  let ?ds = "[\<lparr>Longitude = a1, Latitude = b1, Radiation_uSv_h = Fin (4385 / 10000)\<rparr>,
        \<lparr>Longitude = a2, Latitude = b2, Radiation_uSv_h = Fin 0\<rparr>,
        \<lparr>Longitude = a3, Latitude = b3, Radiation_uSv_h = Fin 0\<rparr>,
        \<lparr>Longitude = a4, Latitude = b4, Radiation_uSv_h = Fin 0\<rparr>]"
  let ?hs = "[\<lparr>point = 1, radiation = Fin (4385 / 10000), risk = ''MODERATE''\<rparr>]"
  have r1: "round_double (877 / 2000) = Fin (3949656873203925 / 9007199254740992)"
    by (rule round_double_pos [where e = "- 2" and m = 7899313746407850]) simp_all
  have r2: "round_double (3949656873203925 / 9007199254740992) = Fin (3949656873203925 / 9007199254740992)"
    by (rule round_double_pos [where e = "- 2" and m = 7899313746407850]) simp_all
  have r3: "round_double (3949656873203925 / 36028797018963968) = Fin (3949656873203925 / 36028797018963968)"
    by (rule round_double_pos [where e = "- 4" and m = 7899313746407850]) simp_all
  have r4: "round_double (877 / 8000) = Fin (3949656873203925 / 36028797018963968)"
    by (rule round_double_pos [where e = "- 4" and m = 7899313746407850]) simp_all
  have r5: "round_double (70) = Fin (70)"
    by (rule round_double_pos [where e = "6" and m = 4925812092436480]) simp_all
  have r6: "round_double (138237990562137375 / 4503599627370496) = Fin (4319937205066793 / 140737488355328)"
    by (rule round_double_pos [where e = "4" and m = 8639874410133586]) simp_all
  have o1: "fmul (Fin (877 / 2000)) (Fin (70)) = Fin (4319937205066793 / 140737488355328)"
    using r1 r5 r6 by (simp add: fmul_def)
  have r7: "round_double (30) = Fin (30)"
    by (rule round_double_pos [where e = "4" and m = 8444249301319680]) simp_all
  have r8: "round_double (59244853098058875 / 18014398509481984) = Fin (7405606637257359 / 2251799813685248)"
    by (rule round_double_pos [where e = "1" and m = 7405606637257359]) simp_all
  have o2: "fmul (Fin (3949656873203925 / 36028797018963968)) (Fin (30)) = Fin (7405606637257359 / 2251799813685248)"
    using r3 r7 r8 by (simp add: fmul_def)
  have r9: "round_double (4319937205066793 / 140737488355328) = Fin (4319937205066793 / 140737488355328)"
    by (rule round_double_pos [where e = "4" and m = 8639874410133586]) simp_all
  have r10: "round_double (7405606637257359 / 2251799813685248) = Fin (7405606637257359 / 2251799813685248)"
    by (rule round_double_pos [where e = "1" and m = 7405606637257359]) simp_all
  have r11: "round_double (76524601918326047 / 2251799813685248) = Fin (2391393809947689 / 70368744177664)"
    by (rule round_double_pos [where e = "5" and m = 4782787619895378]) simp_all
  have o3: "fadd (Fin (4319937205066793 / 140737488355328)) (Fin (7405606637257359 / 2251799813685248)) = Fin (2391393809947689 / 70368744177664)"
    using r9 r10 r11 by (simp add: fadd_def)
  have o4: "fmul (Fin (877 / 8000)) (Fin (30)) = Fin (7405606637257359 / 2251799813685248)"
    using r4 r7 r8 by (simp add: fmul_def)
  have r12: "round_double (27187 / 800) = Fin (2391393809947689 / 70368744177664)"
    by (rule round_double_pos [where e = "5" and m = 4782787619895378]) simp_all
  have r13: "round_double (2391393809947689 / 70368744177664) = Fin (2391393809947689 / 70368744177664)"
    by (rule round_double_pos [where e = "5" and m = 4782787619895378]) simp_all
  have f5: "format_f 2 (Fin (2391393809947689 / 70368744177664)) = ''33.98''"
    using r13 by (subst format_f_eval [where m = 3398 and q' = "2391393809947689 / 70368744177664"]) (simp_all add: str_nat_eval)
  have loop: "report_loop 0 ?ds risk_counts_init [] =
      Inr ([(''SAFE'', 3), (''LOW'', 0), (''MODERATE'', 1), (''HIGH'', 0), (''SEVERE'', 0)], ?hs)"
    by (simp add: risk_counts_init_def level_assess Let_def)
  have st: "get_dataframe ?ds = (?ds,
      \<lparr>stats_mean = Fin (3949656873203925 / 36028797018963968), stats_max = Fin (4385 / 10000), stats_min = Fin 0\<rparr>)"
    using r1 r2 r3
    by (simp add: get_dataframe_def pd_mean_def pd_max_def pd_min_def pd_valid_def
        fdiv_count_def fadd_def round_double_0)
  have x: "fadd (fmul (Fin (4385 / 10000)) (Fin 70)) (fmul (Fin (3949656873203925 / 36028797018963968)) (Fin 30)) = Fin (2391393809947689 / 70368744177664)"
    using o1 o2 o3 by simp
  have x': "fadd (fmul (Fin (4385 / 10000)) (Fin 70)) (fmul (Fin (109625 / 1000000)) (Fin 30))
      = Fin (2391393809947689 / 70368744177664)"
    using o1 o4 o3 by simp
  have idx: "compute_risk_index
      \<lparr>stats_mean = Fin (3949656873203925 / 36028797018963968), stats_max = Fin (4385 / 10000), stats_min = Fin 0\<rparr>
      = Fin (2391393809947689 / 70368744177664)"
    using x by (simp add: compute_risk_index_def py_min_def)
  have ov: "fst (overall_assessment (Fin (2391393809947689 / 70368744177664))) = ''LOW''"
    by (simp add: overall_assessment_def)
  obtain es where es: "hotspot_exposures ?hs = Inr es"
    using hotspot_exposures_total [of ?hs] by blast
  show ?thesis
    using loop st idx ov es x' r4 r12 f5
    by (simp add: generate_risk_report_def Let_def py_min_def)
qed

lemma data_points_report:
  "\<exists>rep. generate_risk_report data_points = Inr rep \<and>
     risk_counts rep =
       [(''SAFE'', 3), (''LOW'', 0), (''MODERATE'', 1), (''HIGH'', 0), (''SEVERE'', 0)] \<and>
     hotspots rep =
       [\<lparr>point = 1, radiation = Fin (4385 / 10000), risk = ''MODERATE''\<rparr>] \<and>
     format_f 2 (risk_index rep) = ''33.98'' \<and>
     overall_risk rep = ''LOW''"
  unfolding data_points_def using scenario_report by blast

lemma exposure_at_0_015:
  "calculate_exposure_safety (Fin (15 / 1000)) =
     Inr [(''public_safety'', ''Safe for 8333 days (8hr/day)''),
          (''worker_safety'', ''Safe for 166667 days (8hr/day)''),
          (''annual_dose_estimate'', ''30 '' @ micro_sign @ ''Sv/year''),
          (''percent_of_public_limit'', ''3.0%''),
          (''percent_of_worker_limit'', ''0.1%'')]"
proof -
  have r1: "round_double (3 / 200) = Fin (1080863910568919 / 72057594037927936)"
    by (rule round_double_pos [where e = "- 7" and m = 8646911284551352]) simp_all
  have r2: "round_double (1000) = Fin (1000)"
    by (rule round_double_pos [where e = "9" and m = 8796093022208000]) simp_all
  have r3: "round_double (72057594037927936000 / 1080863910568919) = Fin (4581298449066667 / 68719476736)"
    by (rule round_double_pos [where e = "16" and m = 4581298449066667]) simp_all
  have o4: "py_truediv (Fin (1000)) (Fin (3 / 200)) = Inr (Fin (4581298449066667 / 68719476736))"
    using r2 r1 r3 by (simp add: py_truediv_def)
  have r5: "round_double (20000) = Fin (20000)"
    by (rule round_double_pos [where e = "14" and m = 5497558138880000]) simp_all
  have r6: "round_double (1441151880758558720000 / 1080863910568919) = Fin (2863311530666667 / 2147483648)"
    by (rule round_double_pos [where e = "20" and m = 5726623061333334]) simp_all
  have o7: "py_truediv (Fin (20000)) (Fin (3 / 200)) = Inr (Fin (2863311530666667 / 2147483648))"
    using r5 r1 r6 by (simp add: py_truediv_def)
  have r8: "round_double (4581298449066667 / 68719476736) = Fin (4581298449066667 / 68719476736)"
    by (rule round_double_pos [where e = "16" and m = 4581298449066667]) simp_all
  have r9: "round_double (8) = Fin (8)"
    by (rule round_double_pos [where e = "3" and m = 4503599627370496]) simp_all
  have r10: "round_double (4581298449066667 / 549755813888) = Fin (4581298449066667 / 549755813888)"
    by (rule round_double_pos [where e = "13" and m = 4581298449066667]) simp_all
  have o11: "py_truediv (Fin (4581298449066667 / 68719476736)) (Fin (8)) = Inr (Fin (4581298449066667 / 549755813888))"
    using r8 r9 r10 by (simp add: py_truediv_def)
  have r12: "round_double (2863311530666667 / 2147483648) = Fin (2863311530666667 / 2147483648)"
    by (rule round_double_pos [where e = "20" and m = 5726623061333334]) simp_all
  have r13: "round_double (2863311530666667 / 17179869184) = Fin (2863311530666667 / 17179869184)"
    by (rule round_double_pos [where e = "17" and m = 5726623061333334]) simp_all
  have o14: "py_truediv (Fin (2863311530666667 / 2147483648)) (Fin (8)) = Inr (Fin (2863311530666667 / 17179869184))"
    using r12 r9 r13 by (simp add: py_truediv_def)
  have r15: "round_double (1080863910568919 / 9007199254740992) = Fin (1080863910568919 / 9007199254740992)"
    by (rule round_double_pos [where e = "- 4" and m = 8646911284551352]) simp_all
  have o16: "fmul (Fin (3 / 200)) (Fin (8)) = Fin (1080863910568919 / 9007199254740992)"
    using r1 r9 r15 by (simp add: fmul_def inf_times_def)
  have r17: "round_double (250) = Fin (250)"
    by (rule round_double_pos [where e = "7" and m = 8796093022208000]) simp_all
  have r18: "round_double (135107988821114875 / 4503599627370496) = Fin (30)"
    by (rule round_double_pos [where e = "4" and m = 8444249301319680]) simp_all
  have o19: "fmul (Fin (1080863910568919 / 9007199254740992)) (Fin (250)) = Fin (30)"
    using r15 r17 r18 by (simp add: fmul_def inf_times_def)
  have r20: "round_double (30) = Fin (30)"
    by (rule round_double_pos [where e = "4" and m = 8444249301319680]) simp_all
  have r21: "round_double (3 / 100) = Fin (1080863910568919 / 36028797018963968)"
    by (rule round_double_pos [where e = "- 6" and m = 8646911284551352]) simp_all
  have o22: "py_truediv (Fin (30)) (Fin (1000)) = Inr (Fin (1080863910568919 / 36028797018963968))"
    using r20 r2 r21 by (simp add: py_truediv_def)
  have r23: "round_double (3 / 2000) = Fin (3458764513820541 / 2305843009213693952)"
    by (rule round_double_pos [where e = "- 10" and m = 6917529027641082]) simp_all
  have o24: "py_truediv (Fin (30)) (Fin (20000)) = Inr (Fin (3458764513820541 / 2305843009213693952))"
    using r20 r5 r23 by (simp add: py_truediv_def)
  have r25: "round_double (1080863910568919 / 36028797018963968) = Fin (1080863910568919 / 36028797018963968)"
    by (rule round_double_pos [where e = "- 6" and m = 8646911284551352]) simp_all
  have r26: "round_double (100) = Fin (100)"
    by (rule round_double_pos [where e = "6" and m = 7036874417766400]) simp_all
  have r27: "round_double (27021597764222975 / 9007199254740992) = Fin (3)"
    by (rule round_double_pos [where e = "1" and m = 6755399441055744]) simp_all
  have o28: "fmul (Fin (1080863910568919 / 36028797018963968)) (Fin (100)) = Fin (3)"
    using r25 r26 r27 by (simp add: fmul_def inf_times_def)
  have r29: "round_double (3458764513820541 / 2305843009213693952) = Fin (3458764513820541 / 2305843009213693952)"
    by (rule round_double_pos [where e = "- 10" and m = 6917529027641082]) simp_all
  have r30: "round_double (86469112845513525 / 576460752303423488) = Fin (5404319552844595 / 36028797018963968)"
    by (rule round_double_pos [where e = "- 3" and m = 5404319552844595]) simp_all
  have o31: "fmul (Fin (3458764513820541 / 2305843009213693952)) (Fin (100)) = Fin (5404319552844595 / 36028797018963968)"
    using r29 r26 r30 by (simp add: fmul_def inf_times_def)
  have f32: "format_f 0 (Fin (4581298449066667 / 549755813888)) = ''8333''"
    using r10 by (subst format_f_eval [where m = 8333 and q' = "4581298449066667 / 549755813888"]) (simp_all add: str_nat_eval)
  have f33: "format_f 0 (Fin (2863311530666667 / 17179869184)) = ''166667''"
    using r13 by (subst format_f_eval [where m = 166667 and q' = "2863311530666667 / 17179869184"]) (simp_all add: str_nat_eval)
  have f34: "format_f 0 (Fin (30)) = ''30''"
    using r20 by (subst format_f_eval [where m = 30 and q' = "30"]) (simp_all add: str_nat_eval)
  have r36: "round_double (3) = Fin (3)"
    by (rule round_double_pos [where e = "1" and m = 6755399441055744]) simp_all
  have f35: "format_f 1 (Fin (3)) = ''3.0''"
    using r36 by (subst format_f_eval [where m = 30 and q' = "3"]) (simp_all add: str_nat_eval)
  have r38: "round_double (5404319552844595 / 36028797018963968) = Fin (5404319552844595 / 36028797018963968)"
    by (rule round_double_pos [where e = "- 3" and m = 5404319552844595]) simp_all
  have f37: "format_f 1 (Fin (5404319552844595 / 36028797018963968)) = ''0.1''"
    using r38 by (subst format_f_eval [where m = 1 and q' = "5404319552844595 / 36028797018963968"]) (simp_all add: str_nat_eval)
  show ?thesis
    using r1 o4 o7 o11 o14 o16 o19 o22 o24 o28 o31 f32 f33 f34 f35 f37
    by (simp add: calculate_exposure_safety_def Let_def)
qed

lemma exposure_at_0_25075:
  "calculate_exposure_safety (Fin (25075 / 100000)) =
     Inr [(''public_safety'', ''Safe for 499 days (8hr/day)''),
          (''worker_safety'', ''Safe for 9970 days (8hr/day)''),
          (''annual_dose_estimate'', ''501 '' @ micro_sign @ ''Sv/year''),
          (''percent_of_public_limit'', ''50.1%''),
          (''percent_of_worker_limit'', ''2.5%'')]"
proof -
  have r1: "round_double (1003 / 4000) = Fin (4517110426252607 / 18014398509481984)"
    by (rule round_double_pos [where e = "- 2" and m = 4517110426252607]) simp_all
  have r2: "round_double (1000) = Fin (1000)"
    by (rule round_double_pos [where e = "9" and m = 8796093022208000]) simp_all
  have r3: "round_double (18014398509481984000 / 4517110426252607) = Fin (4384891835597209 / 1099511627776)"
    by (rule round_double_pos [where e = "11" and m = 8769783671194418]) simp_all
  have o4: "py_truediv (Fin (1000)) (Fin (1003 / 4000)) = Inr (Fin (4384891835597209 / 1099511627776))"
    using r2 r1 r3 by (simp add: py_truediv_def)
  have r5: "round_double (20000) = Fin (20000)"
    by (rule round_double_pos [where e = "14" and m = 5497558138880000]) simp_all
  have r6: "round_double (360287970189639680000 / 4517110426252607) = Fin (5481114794496511 / 68719476736)"
    by (rule round_double_pos [where e = "16" and m = 5481114794496511]) simp_all
  have o7: "py_truediv (Fin (20000)) (Fin (1003 / 4000)) = Inr (Fin (5481114794496511 / 68719476736))"
    using r5 r1 r6 by (simp add: py_truediv_def)
  have r8: "round_double (4384891835597209 / 1099511627776) = Fin (4384891835597209 / 1099511627776)"
    by (rule round_double_pos [where e = "11" and m = 8769783671194418]) simp_all
  have r9: "round_double (8) = Fin (8)"
    by (rule round_double_pos [where e = "3" and m = 4503599627370496]) simp_all
  have r10: "round_double (4384891835597209 / 8796093022208) = Fin (4384891835597209 / 8796093022208)"
    by (rule round_double_pos [where e = "8" and m = 8769783671194418]) simp_all
  have o11: "py_truediv (Fin (4384891835597209 / 1099511627776)) (Fin (8)) = Inr (Fin (4384891835597209 / 8796093022208))"
    using r8 r9 r10 by (simp add: py_truediv_def)
  have r12: "round_double (5481114794496511 / 68719476736) = Fin (5481114794496511 / 68719476736)"
    by (rule round_double_pos [where e = "16" and m = 5481114794496511]) simp_all
  have r13: "round_double (5481114794496511 / 549755813888) = Fin (5481114794496511 / 549755813888)"
    by (rule round_double_pos [where e = "13" and m = 5481114794496511]) simp_all
  have o14: "py_truediv (Fin (5481114794496511 / 68719476736)) (Fin (8)) = Inr (Fin (5481114794496511 / 549755813888))"
    using r12 r9 r13 by (simp add: py_truediv_def)
  have r15: "round_double (4517110426252607 / 2251799813685248) = Fin (4517110426252607 / 2251799813685248)"
    by (rule round_double_pos [where e = "1" and m = 4517110426252607]) simp_all
  have o16: "fmul (Fin (1003 / 4000)) (Fin (8)) = Fin (4517110426252607 / 2251799813685248)"
    using r1 r9 r15 by (simp add: fmul_def inf_times_def)
  have r17: "round_double (250) = Fin (250)"
    by (rule round_double_pos [where e = "7" and m = 8796093022208000]) simp_all
  have r18: "round_double (564638803281575875 / 1125899906842624) = Fin (8822481301274623 / 17592186044416)"
    by (rule round_double_pos [where e = "8" and m = 8822481301274623]) simp_all
  have o19: "fmul (Fin (4517110426252607 / 2251799813685248)) (Fin (250)) = Fin (8822481301274623 / 17592186044416)"
    using r15 r17 r18 by (simp add: fmul_def inf_times_def)
  have r20: "round_double (8822481301274623 / 17592186044416) = Fin (8822481301274623 / 17592186044416)"
    by (rule round_double_pos [where e = "8" and m = 8822481301274623]) simp_all
  have r21: "round_double (8822481301274623 / 17592186044416000) = Fin (4517110426252607 / 9007199254740992)"
    by (rule round_double_pos [where e = "- 1" and m = 4517110426252607]) simp_all
  have o22: "py_truediv (Fin (8822481301274623 / 17592186044416)) (Fin (1000)) = Inr (Fin (4517110426252607 / 9007199254740992))"
    using r20 r2 r21 by (simp add: py_truediv_def)
  have r23: "round_double (8822481301274623 / 351843720888320000) = Fin (7227376682004171 / 288230376151711744)"
    by (rule round_double_pos [where e = "- 6" and m = 7227376682004171]) simp_all
  have o24: "py_truediv (Fin (8822481301274623 / 17592186044416)) (Fin (20000)) = Inr (Fin (7227376682004171 / 288230376151711744))"
    using r20 r5 r23 by (simp add: py_truediv_def)
  have r25: "round_double (4517110426252607 / 9007199254740992) = Fin (4517110426252607 / 9007199254740992)"
    by (rule round_double_pos [where e = "- 1" and m = 4517110426252607]) simp_all
  have r26: "round_double (100) = Fin (100)"
    by (rule round_double_pos [where e = "6" and m = 7036874417766400]) simp_all
  have r27: "round_double (112927760656315175 / 2251799813685248) = Fin (3528992520509849 / 70368744177664)"
    by (rule round_double_pos [where e = "5" and m = 7057985041019698]) simp_all
  have o28: "fmul (Fin (4517110426252607 / 9007199254740992)) (Fin (100)) = Fin (3528992520509849 / 70368744177664)"
    using r25 r26 r27 by (simp add: fmul_def inf_times_def)
  have r29: "round_double (7227376682004171 / 288230376151711744) = Fin (7227376682004171 / 288230376151711744)"
    by (rule round_double_pos [where e = "- 6" and m = 7227376682004171]) simp_all
  have r30: "round_double (180684417050104275 / 72057594037927936) = Fin (5646388032815759 / 2251799813685248)"
    by (rule round_double_pos [where e = "1" and m = 5646388032815759]) simp_all
  have o31: "fmul (Fin (7227376682004171 / 288230376151711744)) (Fin (100)) = Fin (5646388032815759 / 2251799813685248)"
    using r29 r26 r30 by (simp add: fmul_def inf_times_def)
  have f32: "format_f 0 (Fin (4384891835597209 / 8796093022208)) = ''499''"
    using r10 by (subst format_f_eval [where m = 499 and q' = "4384891835597209 / 8796093022208"]) (simp_all add: str_nat_eval)
  have f33: "format_f 0 (Fin (5481114794496511 / 549755813888)) = ''9970''"
    using r13 by (subst format_f_eval [where m = 9970 and q' = "5481114794496511 / 549755813888"]) (simp_all add: str_nat_eval)
  have f34: "format_f 0 (Fin (8822481301274623 / 17592186044416)) = ''501''"
    using r20 by (subst format_f_eval [where m = 501 and q' = "8822481301274623 / 17592186044416"]) (simp_all add: str_nat_eval)
  have r36: "round_double (3528992520509849 / 70368744177664) = Fin (3528992520509849 / 70368744177664)"
    by (rule round_double_pos [where e = "5" and m = 7057985041019698]) simp_all
  have f35: "format_f 1 (Fin (3528992520509849 / 70368744177664)) = ''50.1''"
    using r36 by (subst format_f_eval [where m = 501 and q' = "3528992520509849 / 70368744177664"]) (simp_all add: str_nat_eval)
  have r38: "round_double (5646388032815759 / 2251799813685248) = Fin (5646388032815759 / 2251799813685248)"
    by (rule round_double_pos [where e = "1" and m = 5646388032815759]) simp_all
  have f37: "format_f 1 (Fin (5646388032815759 / 2251799813685248)) = ''2.5''"
    using r38 by (subst format_f_eval [where m = 25 and q' = "5646388032815759 / 2251799813685248"]) (simp_all add: str_nat_eval)
  show ?thesis
    using r1 o4 o7 o11 o14 o16 o19 o22 o24 o28 o31 f32 f33 f34 f35 f37
    by (simp add: calculate_exposure_safety_def Let_def)
qed

lemma exposure_at_1e308:
  "calculate_exposure_safety (Fin (10 ^ 308)) =
     Inr [(''public_safety'', ''Safe for 0 days (8hr/day)''),
          (''worker_safety'', ''Safe for 0 days (8hr/day)''),
          (''annual_dose_estimate'', ''inf '' @ micro_sign @ ''Sv/year''),
          (''percent_of_public_limit'', ''inf%''),
          (''percent_of_worker_limit'', ''inf%'')]"
proof -
  have r1: "round_double (100000000000000000000000000000000000000000000000000000000000000000000000000000000000000000000000000000000000000000000000000000000000000000000000000000000000000000000000000000000000000000000000000000000000000000000000000000000000000000000000000000000000000000000000000000000000000000000000000000000000000000000) = Fin (100000000000000001097906362944045541740492309677311846336810682903157585404911491537163328978494688899061249669721172515611590283743140088328307009198146046031271664502933027185697489699588559043338384466165001178426897626212945177628091195786707458122783970171784415105291802893207873272974885715430223118336)"
    by (rule round_double_top [where m = 5010420900022432]) simp_all
  have r2: "round_double (1000) = Fin (1000)"
    by (rule round_double_pos [where e = "9" and m = 8796093022208000]) simp_all
  have r3: "round_double (125 / 12500000000000000137238295368005692717561538709663980792101335362894698175613936442145416122311836112382656208715146564451448785467892511041038376149768255753908958062866628398212186212448569880417298058270625147303362203276618147203511399473338432265347996271473051888161475361650984159121860714428777889792) = Fin (7906338019816821 / 790633801981682102939434948120770730662330663141180149831645929794649763937481823796720248833738767559324522907487546528866440380413255769011771093518509804380927438580337349079948858367551626332967842494034160424070341732127705853976966233004529516956289283251401443563802400840744150516352841830648461966045733363646464)"
    by (rule round_double_pos [where e = "- 1014" and m = 7906338019816821]) simp_all
  have o4: "py_truediv (Fin (1000)) (Fin (100000000000000000000000000000000000000000000000000000000000000000000000000000000000000000000000000000000000000000000000000000000000000000000000000000000000000000000000000000000000000000000000000000000000000000000000000000000000000000000000000000000000000000000000000000000000000000000000000000000000000000000)) = Inr (Fin (7906338019816821 / 790633801981682102939434948120770730662330663141180149831645929794649763937481823796720248833738767559324522907487546528866440380413255769011771093518509804380927438580337349079948858367551626332967842494034160424070341732127705853976966233004529516956289283251401443563802400840744150516352841830648461966045733363646464))"
    using r2 r1 r3 by (simp add: py_truediv_def)
  have r5: "round_double (20000) = Fin (20000)"
    by (rule round_double_pos [where e = "14" and m = 5497558138880000]) simp_all
  have r6: "round_double (625 / 3125000000000000034309573842001423179390384677415995198025333840723674543903484110536354030577959028095664052178786641112862196366973127760259594037442063938477239515716657099553046553112142470104324514567656286825840550819154536800877849868334608066336999067868262972040368840412746039780465178607194472448) = Fin (4941461262385513 / 24707306311927565716857342128774085333197833223161879682238935306082805123046306993647507776054336486228891340858985829027076261887914242781617846672453431386903982455635542158748401823985988322905245077938567513252198179128990807936780194781391547404884040101606295111368825026273254703636026307207764436438929167613952)"
    by (rule round_double_pos [where e = "- 1009" and m = 4941461262385513]) simp_all
  have o7: "py_truediv (Fin (20000)) (Fin (100000000000000000000000000000000000000000000000000000000000000000000000000000000000000000000000000000000000000000000000000000000000000000000000000000000000000000000000000000000000000000000000000000000000000000000000000000000000000000000000000000000000000000000000000000000000000000000000000000000000000000000)) = Inr (Fin (4941461262385513 / 24707306311927565716857342128774085333197833223161879682238935306082805123046306993647507776054336486228891340858985829027076261887914242781617846672453431386903982455635542158748401823985988322905245077938567513252198179128990807936780194781391547404884040101606295111368825026273254703636026307207764436438929167613952))"
    using r5 r1 r6 by (simp add: py_truediv_def)
  have r8: "round_double (7906338019816821 / 790633801981682102939434948120770730662330663141180149831645929794649763937481823796720248833738767559324522907487546528866440380413255769011771093518509804380927438580337349079948858367551626332967842494034160424070341732127705853976966233004529516956289283251401443563802400840744150516352841830648461966045733363646464) = Fin (7906338019816821 / 790633801981682102939434948120770730662330663141180149831645929794649763937481823796720248833738767559324522907487546528866440380413255769011771093518509804380927438580337349079948858367551626332967842494034160424070341732127705853976966233004529516956289283251401443563802400840744150516352841830648461966045733363646464)"
    by (rule round_double_pos [where e = "- 1014" and m = 7906338019816821]) simp_all
  have r9: "round_double (8) = Fin (8)"
    by (rule round_double_pos [where e = "3" and m = 4503599627370496]) simp_all
  have r10: "round_double (7906338019816821 / 6325070415853456823515479584966165845298645305129441198653167438357198111499854590373761990669910140474596183259900372230931523043306046152094168748148078435047419508642698792639590866940413010663742739952273283392562733857021646831815729864036236135650314266011211548510419206725953204130822734645187695728365866909171712) = Fin (7906338019816821 / 6325070415853456823515479584966165845298645305129441198653167438357198111499854590373761990669910140474596183259900372230931523043306046152094168748148078435047419508642698792639590866940413010663742739952273283392562733857021646831815729864036236135650314266011211548510419206725953204130822734645187695728365866909171712)"
    by (rule round_double_pos [where e = "- 1017" and m = 7906338019816821]) simp_all
  have o11: "py_truediv (Fin (7906338019816821 / 790633801981682102939434948120770730662330663141180149831645929794649763937481823796720248833738767559324522907487546528866440380413255769011771093518509804380927438580337349079948858367551626332967842494034160424070341732127705853976966233004529516956289283251401443563802400840744150516352841830648461966045733363646464)) (Fin (8)) = Inr (Fin (7906338019816821 / 6325070415853456823515479584966165845298645305129441198653167438357198111499854590373761990669910140474596183259900372230931523043306046152094168748148078435047419508642698792639590866940413010663742739952273283392562733857021646831815729864036236135650314266011211548510419206725953204130822734645187695728365866909171712))"
    using r8 r9 r10 by (simp add: py_truediv_def)
  have r12: "round_double (4941461262385513 / 24707306311927565716857342128774085333197833223161879682238935306082805123046306993647507776054336486228891340858985829027076261887914242781617846672453431386903982455635542158748401823985988322905245077938567513252198179128990807936780194781391547404884040101606295111368825026273254703636026307207764436438929167613952) = Fin (4941461262385513 / 24707306311927565716857342128774085333197833223161879682238935306082805123046306993647507776054336486228891340858985829027076261887914242781617846672453431386903982455635542158748401823985988322905245077938567513252198179128990807936780194781391547404884040101606295111368825026273254703636026307207764436438929167613952)"
    by (rule round_double_pos [where e = "- 1009" and m = 4941461262385513]) simp_all
  have r13: "round_double (4941461262385513 / 197658450495420525734858737030192682665582665785295037457911482448662440984370455949180062208434691889831130726871886632216610095103313942252942773379627451095231859645084337269987214591887906583241960623508540106017585433031926463494241558251132379239072320812850360890950600210186037629088210457662115491511433340911616) = Fin (4941461262385513 / 197658450495420525734858737030192682665582665785295037457911482448662440984370455949180062208434691889831130726871886632216610095103313942252942773379627451095231859645084337269987214591887906583241960623508540106017585433031926463494241558251132379239072320812850360890950600210186037629088210457662115491511433340911616)"
    by (rule round_double_pos [where e = "- 1012" and m = 4941461262385513]) simp_all
  have o14: "py_truediv (Fin (4941461262385513 / 24707306311927565716857342128774085333197833223161879682238935306082805123046306993647507776054336486228891340858985829027076261887914242781617846672453431386903982455635542158748401823985988322905245077938567513252198179128990807936780194781391547404884040101606295111368825026273254703636026307207764436438929167613952)) (Fin (8)) = Inr (Fin (4941461262385513 / 197658450495420525734858737030192682665582665785295037457911482448662440984370455949180062208434691889831130726871886632216610095103313942252942773379627451095231859645084337269987214591887906583241960623508540106017585433031926463494241558251132379239072320812850360890950600210186037629088210457662115491511433340911616))"
    using r12 r9 r13 by (simp add: py_truediv_def)
  have r15: "round_double (800000000000000008783250903552364333923938477418494770694485463225260683239291932297306631827957511192489997357769380124892722269945120706626456073585168368250173316023464217485579917596708472346707075729320009427415181009703561421024729566293659664982271761374275320842334423145662986183799085723441784946688) = PInf"
    by (rule round_double_overflow) simp
  have o16: "fmul (Fin (100000000000000000000000000000000000000000000000000000000000000000000000000000000000000000000000000000000000000000000000000000000000000000000000000000000000000000000000000000000000000000000000000000000000000000000000000000000000000000000000000000000000000000000000000000000000000000000000000000000000000000000)) (Fin (8)) = PInf"
    using r1 r9 r15 by (simp add: fmul_def inf_times_def)
  have r17: "round_double (250) = Fin (250)"
    by (rule round_double_pos [where e = "7" and m = 8796093022208000]) simp_all
  have o18: "fmul (PInf) (Fin (250)) = PInf"
    using r17 by (simp add: fmul_def inf_times_def)
  have o19: "py_truediv (PInf) (Fin (1000)) = Inr (PInf)"
    using r2 by (simp add: py_truediv_def)
  have o20: "py_truediv (PInf) (Fin (20000)) = Inr (PInf)"
    using r5 by (simp add: py_truediv_def)
  have r21: "round_double (100) = Fin (100)"
    by (rule round_double_pos [where e = "6" and m = 7036874417766400]) simp_all
  have o22: "fmul (PInf) (Fin (100)) = PInf"
    using r21 by (simp add: fmul_def inf_times_def)
  have o23: "fmul (PInf) (Fin (100)) = PInf"
    using r21 by (simp add: fmul_def inf_times_def)
  have f24: "format_f 0 (Fin (7906338019816821 / 6325070415853456823515479584966165845298645305129441198653167438357198111499854590373761990669910140474596183259900372230931523043306046152094168748148078435047419508642698792639590866940413010663742739952273283392562733857021646831815729864036236135650314266011211548510419206725953204130822734645187695728365866909171712)) = ''0''"
    using r10 by (subst format_f_eval [where m = 0 and q' = "7906338019816821 / 6325070415853456823515479584966165845298645305129441198653167438357198111499854590373761990669910140474596183259900372230931523043306046152094168748148078435047419508642698792639590866940413010663742739952273283392562733857021646831815729864036236135650314266011211548510419206725953204130822734645187695728365866909171712"]) (simp_all add: str_nat_eval)
  have f25: "format_f 0 (Fin (4941461262385513 / 197658450495420525734858737030192682665582665785295037457911482448662440984370455949180062208434691889831130726871886632216610095103313942252942773379627451095231859645084337269987214591887906583241960623508540106017585433031926463494241558251132379239072320812850360890950600210186037629088210457662115491511433340911616)) = ''0''"
    using r13 by (subst format_f_eval [where m = 0 and q' = "4941461262385513 / 197658450495420525734858737030192682665582665785295037457911482448662440984370455949180062208434691889831130726871886632216610095103313942252942773379627451095231859645084337269987214591887906583241960623508540106017585433031926463494241558251132379239072320812850360890950600210186037629088210457662115491511433340911616"]) (simp_all add: str_nat_eval)
  have f26: "format_f 0 PInf = ''inf''"
    by (simp add: format_f_def)
  have f27: "format_f 1 PInf = ''inf''"
    by (simp add: format_f_def)
  have f28: "format_f 1 PInf = ''inf''"
    by (simp add: format_f_def)
  show ?thesis
    using r1 o4 o7 o11 o14 o16 o18 o19 o20 o22 o23 f24 f25 f26 f27 f28
    by (simp add: calculate_exposure_safety_def Let_def)
qed

lemma exposure_at_5e_324:
  "calculate_exposure_safety (Fin (5 / 10 ^ 324)) =
     Inr [(''public_safety'', ''Safe for inf days (8hr/day)''),
          (''worker_safety'', ''Safe for inf days (8hr/day)''),
          (''annual_dose_estimate'', ''0 '' @ micro_sign @ ''Sv/year''),
          (''percent_of_public_limit'', ''0.0%''),
          (''percent_of_worker_limit'', ''0.0%'')]"
proof -
  have r1: "round_double (1 / 200000000000000000000000000000000000000000000000000000000000000000000000000000000000000000000000000000000000000000000000000000000000000000000000000000000000000000000000000000000000000000000000000000000000000000000000000000000000000000000000000000000000000000000000000000000000000000000000000000000000000000000000000000000000) = Fin (1 / 202402253307310618352495346718917307049556649764142118356901358027430339567995346891960383701437124495187077864316811911389808737385793476867013399940738509921517424276566361364466907742093216341239767678472745068562007483424692698618103355649159556340810056512358769552333414615230502532186327508646006263307707741093494784)"
    by (rule round_double_sub [where m = 1]) simp_all
  have r2: "round_double (1000) = Fin (1000)"
    by (rule round_double_pos [where e = "9" and m = 8796093022208000]) simp_all
  have r3: "round_double (202402253307310618352495346718917307049556649764142118356901358027430339567995346891960383701437124495187077864316811911389808737385793476867013399940738509921517424276566361364466907742093216341239767678472745068562007483424692698618103355649159556340810056512358769552333414615230502532186327508646006263307707741093494784000) = PInf"
    by (rule round_double_overflow) simp
  have o4: "py_truediv (Fin (1000)) (Fin (1 / 200000000000000000000000000000000000000000000000000000000000000000000000000000000000000000000000000000000000000000000000000000000000000000000000000000000000000000000000000000000000000000000000000000000000000000000000000000000000000000000000000000000000000000000000000000000000000000000000000000000000000000000000000000000000)) = Inr (PInf)"
    using r2 r1 r3 by (simp add: py_truediv_def)
  have r5: "round_double (20000) = Fin (20000)"
    by (rule round_double_pos [where e = "14" and m = 5497558138880000]) simp_all
  have r6: "round_double (4048045066146212367049906934378346140991132995282842367138027160548606791359906937839207674028742489903741557286336238227796174747715869537340267998814770198430348485531327227289338154841864326824795353569454901371240149668493853972362067112983191126816201130247175391046668292304610050643726550172920125266154154821869895680000) = PInf"
    by (rule round_double_overflow) simp
  have o7: "py_truediv (Fin (20000)) (Fin (1 / 200000000000000000000000000000000000000000000000000000000000000000000000000000000000000000000000000000000000000000000000000000000000000000000000000000000000000000000000000000000000000000000000000000000000000000000000000000000000000000000000000000000000000000000000000000000000000000000000000000000000000000000000000000000000)) = Inr (PInf)"
    using r5 r1 r6 by (simp add: py_truediv_def)
  have r8: "round_double (8) = Fin (8)"
    by (rule round_double_pos [where e = "3" and m = 4503599627370496]) simp_all
  have o9: "py_truediv (PInf) (Fin (8)) = Inr (PInf)"
    using r8 by (simp add: py_truediv_def)
  have o10: "py_truediv (PInf) (Fin (8)) = Inr (PInf)"
    using r8 by (simp add: py_truediv_def)
  have r11: "round_double (1 / 25300281663413827294061918339864663381194581220517764794612669753428792445999418361495047962679640561898384733039601488923726092173224184608376674992592313740189678034570795170558363467761652042654970959809093133570250935428086587327262919456144944542601257064044846194041676826903812816523290938580750782913463467636686848) = Fin (1 / 25300281663413827294061918339864663381194581220517764794612669753428792445999418361495047962679640561898384733039601488923726092173224184608376674992592313740189678034570795170558363467761652042654970959809093133570250935428086587327262919456144944542601257064044846194041676826903812816523290938580750782913463467636686848)"
    by (rule round_double_sub [where m = 8]) simp_all
  have o12: "fmul (Fin (1 / 200000000000000000000000000000000000000000000000000000000000000000000000000000000000000000000000000000000000000000000000000000000000000000000000000000000000000000000000000000000000000000000000000000000000000000000000000000000000000000000000000000000000000000000000000000000000000000000000000000000000000000000000000000000000)) (Fin (8)) = Fin (1 / 25300281663413827294061918339864663381194581220517764794612669753428792445999418361495047962679640561898384733039601488923726092173224184608376674992592313740189678034570795170558363467761652042654970959809093133570250935428086587327262919456144944542601257064044846194041676826903812816523290938580750782913463467636686848)"
    using r1 r8 r11 by (simp add: fmul_def inf_times_def)
  have r13: "round_double (250) = Fin (250)"
    by (rule round_double_pos [where e = "7" and m = 8796093022208000]) simp_all
  have r14: "round_double (125 / 12650140831706913647030959169932331690597290610258882397306334876714396222999709180747523981339820280949192366519800744461863046086612092304188337496296156870094839017285397585279181733880826021327485479904546566785125467714043293663631459728072472271300628532022423097020838413451906408261645469290375391456731733818343424) = Fin (125 / 12650140831706913647030959169932331690597290610258882397306334876714396222999709180747523981339820280949192366519800744461863046086612092304188337496296156870094839017285397585279181733880826021327485479904546566785125467714043293663631459728072472271300628532022423097020838413451906408261645469290375391456731733818343424)"
    by (rule round_double_sub [where m = 2000]) simp_all
  have o15: "fmul (Fin (1 / 25300281663413827294061918339864663381194581220517764794612669753428792445999418361495047962679640561898384733039601488923726092173224184608376674992592313740189678034570795170558363467761652042654970959809093133570250935428086587327262919456144944542601257064044846194041676826903812816523290938580750782913463467636686848)) (Fin (250)) = Fin (125 / 12650140831706913647030959169932331690597290610258882397306334876714396222999709180747523981339820280949192366519800744461863046086612092304188337496296156870094839017285397585279181733880826021327485479904546566785125467714043293663631459728072472271300628532022423097020838413451906408261645469290375391456731733818343424)"
    using r11 r13 r14 by (simp add: fmul_def inf_times_def)
  have r16: "round_double (1 / 101201126653655309176247673359458653524778324882071059178450679013715169783997673445980191850718562247593538932158405955694904368692896738433506699970369254960758712138283180682233453871046608170619883839236372534281003741712346349309051677824579778170405028256179384776166707307615251266093163754323003131653853870546747392) = Fin (1 / 101201126653655309176247673359458653524778324882071059178450679013715169783997673445980191850718562247593538932158405955694904368692896738433506699970369254960758712138283180682233453871046608170619883839236372534281003741712346349309051677824579778170405028256179384776166707307615251266093163754323003131653853870546747392)"
    by (rule round_double_sub [where m = 2]) simp_all
  have o17: "py_truediv (Fin (125 / 12650140831706913647030959169932331690597290610258882397306334876714396222999709180747523981339820280949192366519800744461863046086612092304188337496296156870094839017285397585279181733880826021327485479904546566785125467714043293663631459728072472271300628532022423097020838413451906408261645469290375391456731733818343424)) (Fin (1000)) = Inr (Fin (1 / 101201126653655309176247673359458653524778324882071059178450679013715169783997673445980191850718562247593538932158405955694904368692896738433506699970369254960758712138283180682233453871046608170619883839236372534281003741712346349309051677824579778170405028256179384776166707307615251266093163754323003131653853870546747392))"
    using r14 r2 r16 by (simp add: py_truediv_def)
  have r18: "round_double (1 / 2024022533073106183524953467189173070495566497641421183569013580274303395679953468919603837014371244951870778643168119113898087373857934768670133999407385099215174242765663613644669077420932163412397676784727450685620074834246926986181033556491595563408100565123587695523334146152305025321863275086460062633077077410934947840) = Fin (0)"
    by (rule round_double_sub [where m = 0]) simp_all
  have o19: "py_truediv (Fin (125 / 12650140831706913647030959169932331690597290610258882397306334876714396222999709180747523981339820280949192366519800744461863046086612092304188337496296156870094839017285397585279181733880826021327485479904546566785125467714043293663631459728072472271300628532022423097020838413451906408261645469290375391456731733818343424)) (Fin (20000)) = Inr (Fin (0))"
    using r14 r5 r18 by (simp add: py_truediv_def)
  have r20: "round_double (100) = Fin (100)"
    by (rule round_double_pos [where e = "6" and m = 7036874417766400]) simp_all
  have r21: "round_double (25 / 25300281663413827294061918339864663381194581220517764794612669753428792445999418361495047962679640561898384733039601488923726092173224184608376674992592313740189678034570795170558363467761652042654970959809093133570250935428086587327262919456144944542601257064044846194041676826903812816523290938580750782913463467636686848) = Fin (25 / 25300281663413827294061918339864663381194581220517764794612669753428792445999418361495047962679640561898384733039601488923726092173224184608376674992592313740189678034570795170558363467761652042654970959809093133570250935428086587327262919456144944542601257064044846194041676826903812816523290938580750782913463467636686848)"
    by (rule round_double_sub [where m = 200]) simp_all
  have o22: "fmul (Fin (1 / 101201126653655309176247673359458653524778324882071059178450679013715169783997673445980191850718562247593538932158405955694904368692896738433506699970369254960758712138283180682233453871046608170619883839236372534281003741712346349309051677824579778170405028256179384776166707307615251266093163754323003131653853870546747392)) (Fin (100)) = Fin (25 / 25300281663413827294061918339864663381194581220517764794612669753428792445999418361495047962679640561898384733039601488923726092173224184608376674992592313740189678034570795170558363467761652042654970959809093133570250935428086587327262919456144944542601257064044846194041676826903812816523290938580750782913463467636686848)"
    using r16 r20 r21 by (simp add: fmul_def inf_times_def)
  have r23: "round_double 0 = Fin 0"
    by (simp add: round_double_def)
  have o24: "fmul (Fin (0)) (Fin (100)) = Fin (0)"
    using r23 r20 by (simp add: fmul_def inf_times_def)
  have f25: "format_f 0 PInf = ''inf''"
    by (simp add: format_f_def)
  have f26: "format_f 0 PInf = ''inf''"
    by (simp add: format_f_def)
  have f27: "format_f 0 (Fin (125 / 12650140831706913647030959169932331690597290610258882397306334876714396222999709180747523981339820280949192366519800744461863046086612092304188337496296156870094839017285397585279181733880826021327485479904546566785125467714043293663631459728072472271300628532022423097020838413451906408261645469290375391456731733818343424)) = ''0''"
    using r14 by (subst format_f_eval [where m = 0 and q' = "125 / 12650140831706913647030959169932331690597290610258882397306334876714396222999709180747523981339820280949192366519800744461863046086612092304188337496296156870094839017285397585279181733880826021327485479904546566785125467714043293663631459728072472271300628532022423097020838413451906408261645469290375391456731733818343424"]) (simp_all add: str_nat_eval)
  have f28: "format_f 1 (Fin (25 / 25300281663413827294061918339864663381194581220517764794612669753428792445999418361495047962679640561898384733039601488923726092173224184608376674992592313740189678034570795170558363467761652042654970959809093133570250935428086587327262919456144944542601257064044846194041676826903812816523290938580750782913463467636686848)) = ''0.0''"
    using r21 by (subst format_f_eval [where m = 0 and q' = "25 / 25300281663413827294061918339864663381194581220517764794612669753428792445999418361495047962679640561898384733039601488923726092173224184608376674992592313740189678034570795170558363467761652042654970959809093133570250935428086587327262919456144944542601257064044846194041676826903812816523290938580750782913463467636686848"]) (simp_all add: str_nat_eval)
  have f29: "format_f 1 (Fin (0)) = ''0.0''"
    using r23 by (subst format_f_eval [where m = 0 and q' = "0"]) (simp_all add: str_nat_eval)
  show ?thesis
    using r1 o4 o7 o9 o10 o12 o15 o17 o19 o22 o24 f25 f26 f27 f28 f29
    by (simp add: calculate_exposure_safety_def Let_def)
qed

lemma exposure_at_1e_400:
  "calculate_exposure_safety (Fin (1 / 10 ^ 400)) = Inr [(''status'', ''No radiation detected'')]"
proof -
  have r1: "round_double (1 / 10000000000000000000000000000000000000000000000000000000000000000000000000000000000000000000000000000000000000000000000000000000000000000000000000000000000000000000000000000000000000000000000000000000000000000000000000000000000000000000000000000000000000000000000000000000000000000000000000000000000000000000000000000000000000000000000000000000000000000000000000000000000000000000000000000000000000000) = Fin (0)"
    by (rule round_double_sub [where m = 0]) simp_all
  show ?thesis
    using r1 by (simp add: calculate_exposure_safety_def)
qed

lemma index_at_0_354_0_174:
  "compute_risk_index
     \<lparr>stats_mean = Fin (174 / 1000), stats_max = Fin (354 / 1000), stats_min = Fin 0\<rparr>
     = Fin (8444249301319679 / 281474976710656) \<and>
   fst (overall_assessment (compute_risk_index
     \<lparr>stats_mean = Fin (174 / 1000), stats_max = Fin (354 / 1000), stats_min = Fin 0\<rparr>))
     = ''SAFE''"
proof -
  have r1: "round_double (177 / 500) = Fin (3188548536178311 / 9007199254740992)"
    by (rule round_double_pos [where e = "- 2" and m = 6377097072356622]) simp_all
  have r2: "round_double (70) = Fin (70)"
    by (rule round_double_pos [where e = "6" and m = 4925812092436480]) simp_all
  have r3: "round_double (111599198766240885 / 4503599627370496) = Fin (6974949922890055 / 281474976710656)"
    by (rule round_double_pos [where e = "4" and m = 6974949922890055]) simp_all
  have o4: "fmul (Fin (177 / 500)) (Fin (70)) = Fin (6974949922890055 / 281474976710656)"
    using r1 r2 r3 by (simp add: fmul_def inf_times_def)
  have r5: "round_double (87 / 500) = Fin (3134505340649865 / 18014398509481984)"
    by (rule round_double_pos [where e = "- 3" and m = 6269010681299730]) simp_all
  have r6: "round_double (30) = Fin (30)"
    by (rule round_double_pos [where e = "4" and m = 8444249301319680]) simp_all
  have r7: "round_double (47017580109747975 / 9007199254740992) = Fin (5877197513718497 / 1125899906842624)"
    by (rule round_double_pos [where e = "2" and m = 5877197513718497]) simp_all
  have o8: "fmul (Fin (87 / 500)) (Fin (30)) = Fin (5877197513718497 / 1125899906842624)"
    using r5 r6 r7 by (simp add: fmul_def inf_times_def)
  have r9: "round_double (6974949922890055 / 281474976710656) = Fin (6974949922890055 / 281474976710656)"
    by (rule round_double_pos [where e = "4" and m = 6974949922890055]) simp_all
  have r10: "round_double (5877197513718497 / 1125899906842624) = Fin (5877197513718497 / 1125899906842624)"
    by (rule round_double_pos [where e = "2" and m = 5877197513718497]) simp_all
  have r11: "round_double (33776997205278717 / 1125899906842624) = Fin (8444249301319679 / 281474976710656)"
    by (rule round_double_pos [where e = "4" and m = 8444249301319679]) simp_all
  have o12: "fadd (Fin (6974949922890055 / 281474976710656)) (Fin (5877197513718497 / 1125899906842624)) = Fin (8444249301319679 / 281474976710656)"
    using r9 r10 r11 by (simp add: fadd_def inf_times_def)
  have x: "fadd (fmul (Fin (354 / 1000)) (Fin 70)) (fmul (Fin (174 / 1000)) (Fin 30)) = Fin (8444249301319679 / 281474976710656)"
    using o4 o8 o12 by simp
  show ?thesis
    using x by (simp add: compute_risk_index_def py_min_def overall_assessment_def)
qed

lemma pd_mean_0_1_0_2:
  "pd_mean [Fin (1 / 10), Fin (2 / 10)] = Fin (1351079888211149 / 9007199254740992) \<and>
   dbl (Fin (15000000000000002 / 10 ^ 17)) = Fin (1351079888211149 / 9007199254740992)"
proof -
  have r1: "round_double (1 / 10) = Fin (3602879701896397 / 36028797018963968)"
    by (rule round_double_pos [where e = "- 4" and m = 7205759403792794]) simp_all
  have r2: "round_double (3602879701896397 / 36028797018963968) = Fin (3602879701896397 / 36028797018963968)"
    by (rule round_double_pos [where e = "- 4" and m = 7205759403792794]) simp_all
  have r3: "round_double (1 / 5) = Fin (3602879701896397 / 18014398509481984)"
    by (rule round_double_pos [where e = "- 3" and m = 7205759403792794]) simp_all
  have r4: "round_double (10808639105689191 / 36028797018963968) = Fin (1351079888211149 / 4503599627370496)"
    by (rule round_double_tie [where e = "- 2" and n = 5404319552844595]) simp_all
  have r5: "round_double (1351079888211149 / 4503599627370496) = Fin (1351079888211149 / 4503599627370496)"
    by (rule round_double_pos [where e = "- 2" and m = 5404319552844596]) simp_all
  have r6: "round_double (1351079888211149 / 9007199254740992) = Fin (1351079888211149 / 9007199254740992)"
    by (rule round_double_pos [where e = "- 3" and m = 5404319552844596]) simp_all
  have r7: "round_double (7500000000000001 / 50000000000000000) = Fin (1351079888211149 / 9007199254740992)"
    by (rule round_double_pos [where e = "- 3" and m = 5404319552844596]) simp_all
  show ?thesis
    using r1 r2 r3 r4 r5 r6 r7
    by (simp add: pd_mean_def pd_valid_def fdiv_count_def fadd_def Let_def round_double_0)
qed

lemma pd_mean_overflow:
  "pd_mean [Fin (10 ^ 308), Fin (10 ^ 308)] = PInf"
proof -
  have r1: "round_double (100000000000000000000000000000000000000000000000000000000000000000000000000000000000000000000000000000000000000000000000000000000000000000000000000000000000000000000000000000000000000000000000000000000000000000000000000000000000000000000000000000000000000000000000000000000000000000000000000000000000000000000) = Fin (100000000000000001097906362944045541740492309677311846336810682903157585404911491537163328978494688899061249669721172515611590283743140088328307009198146046031271664502933027185697489699588559043338384466165001178426897626212945177628091195786707458122783970171784415105291802893207873272974885715430223118336)"
    by (rule round_double_top [where m = 5010420900022432]) simp_all
  have r2: "round_double (100000000000000001097906362944045541740492309677311846336810682903157585404911491537163328978494688899061249669721172515611590283743140088328307009198146046031271664502933027185697489699588559043338384466165001178426897626212945177628091195786707458122783970171784415105291802893207873272974885715430223118336) = Fin (100000000000000001097906362944045541740492309677311846336810682903157585404911491537163328978494688899061249669721172515611590283743140088328307009198146046031271664502933027185697489699588559043338384466165001178426897626212945177628091195786707458122783970171784415105291802893207873272974885715430223118336)"
    by (rule round_double_top [where m = 5010420900022432]) simp_all
  have r3: "round_double (200000000000000002195812725888091083480984619354623692673621365806315170809822983074326657956989377798122499339442345031223180567486280176656614018396292092062543329005866054371394979399177118086676768932330002356853795252425890355256182391573414916245567940343568830210583605786415746545949771430860446236672) = PInf"
    by (rule round_double_overflow) simp
  show ?thesis
    using r1 r2 r3
    by (simp add: pd_mean_def pd_valid_def fdiv_count_def fadd_def Let_def round_double_0)
qed

section \<open>Verified properties\<close>



text \<open>
  C7. Classification is monotone: for dose-rates \<open>0 \<le> a < b\<close> the rank of the level of
  \<open>a\<close> is at most the rank of the level of \<open>b\<close>.
\<close>

theorem classify_monotone:
  "flt_le (Fin 0) a \<Longrightarrow> flt_less a b \<Longrightarrow>
   level_rank (level (assess_risk_corrected a)) \<le> level_rank (level (assess_risk_corrected b))"
  unfolding rank_assess by (cases a; cases b) auto

theorem classify_monotone_witness:
  "flt_le (Fin 0) (Fin (2 / 10)) \<and> flt_less (Fin (2 / 10)) (Fin (6 / 10)) \<and>
   level_rank (level (assess_risk_corrected (Fin (2 / 10))))
     \<le> level_rank (level (assess_risk_corrected (Fin (6 / 10))))"
  using classify_monotone [of "Fin (2 / 10)" "Fin (6 / 10)"] by simp

text \<open>
  C9. For a non-empty dataset the report's risk distribution has exactly the five keys
  SAFE, LOW, MODERATE, HIGH, SEVERE, and its counts add up to the number of samples.
\<close>

theorem distribution_complete:
  "ds \<noteq> [] \<Longrightarrow>
   \<exists>rep. generate_risk_report ds = Inr rep \<and>
     map fst (risk_counts rep) = [''SAFE'', ''LOW'', ''MODERATE'', ''HIGH'', ''SEVERE''] \<and>
     sum_list (map snd (risk_counts rep)) = length ds"
  using generate_risk_report_total [of ds] by auto

theorem distribution_complete_witness:
  "[\<lparr>Longitude = Fin 90, Latitude = Fin 23, Radiation_uSv_h = Fin (4385 / 10000)\<rparr>,
    \<lparr>Longitude = Fin 90, Latitude = Fin 23, Radiation_uSv_h = Fin 0\<rparr>] \<noteq> [] \<and>
   (\<exists>rep. generate_risk_report
       [\<lparr>Longitude = Fin 90, Latitude = Fin 23, Radiation_uSv_h = Fin (4385 / 10000)\<rparr>,
        \<lparr>Longitude = Fin 90, Latitude = Fin 23, Radiation_uSv_h = Fin 0\<rparr>] = Inr rep \<and>
      map fst (risk_counts rep) = [''SAFE'', ''LOW'', ''MODERATE'', ''HIGH'', ''SEVERE''] \<and>
      sum_list (map snd (risk_counts rep)) = 2)"
  using distribution_complete
    [of "[\<lparr>Longitude = Fin 90, Latitude = Fin 23, Radiation_uSv_h = Fin (4385 / 10000)\<rparr>,
          \<lparr>Longitude = Fin 90, Latitude = Fin 23, Radiation_uSv_h = Fin 0\<rparr>]"]
  by (simp add: numeral_2_eq_2)

text \<open>
  C10. For every float, NaN and the infinities and negative values included, the
  classification is one of five fixed dictionaries, one per level; so the radius lookup
  of the risk zones and the tally of the report never raise \<^verbatim>\<open>KeyError\<close>.
\<close>

theorem classify_closed_lookups_total:
  "assess_risk_corrected x \<in> set
     [\<lparr>level = ''SAFE'', color = ''green'', action = ''No restrictions needed'',
        description = ''Within natural background range''\<rparr>,
      \<lparr>level = ''LOW'', color = ''yellow'', action = ''Monitor regularly'',
        description = ''Slightly above natural background''\<rparr>,
      \<lparr>level = ''MODERATE'', color = ''orange'', action = ''Investigate possible sources'',
        description = ''Above normal levels''\<rparr>,
      \<lparr>level = ''HIGH'', color = ''red'', action = ''Restrict prolonged access'',
        description = ''Requires attention''\<rparr>,
      \<lparr>level = ''SEVERE'', color = ''purple'', action = ''Immediate action required'',
        description = ''Emergency situation''\<rparr>] \<and>
   (\<exists>n. zone_radius x = Inr n) \<and>
   (\<exists>rc hs. report_loop 0 rows risk_counts_init [] = Inr (rc, hs)) \<and>
   (\<exists>rep. generate_risk_report rows = Inr rep)"
proof -
  have "\<exists>n. zone_radius x = Inr n"
    by (simp add: zone_radius_def dict_get_def zone_sizes_def level_assess)
  moreover have "\<exists>rc hs. report_loop 0 rows risk_counts_init [] = Inr (rc, hs)"
    using report_loop_total [of risk_counts_init 0 rows "[]"]
    by (auto simp: risk_counts_init_def)
  moreover have "\<exists>rep. generate_risk_report rows = Inr rep"
    using generate_risk_report_total [of rows] by auto
  ultimately show ?thesis
    using assess_cases [of x] by blast
qed

text \<open>
  C5. When the maximum and the mean of the statistics are defined (finite), the risk
  index is \<^verbatim>\<open>min(100, max*70 + mean*30)\<close> in double arithmetic: the rounded sum of the
  two rounded products, or 100 when that sum is not below 100. The overall level is read
  off the index: SAFE below 30, LOW below 50, MODERATE below 70, HIGH below 90, SEVERE
  otherwise. The report carries exactly this index and this level.
\<close>

theorem aggregate_index_and_level:
  "stats_max st = Fin mx \<Longrightarrow> stats_mean st = Fin mn \<Longrightarrow>
   compute_risk_index st =
     (if flt_less (fadd (fmul (Fin mx) (Fin 70)) (fmul (Fin mn) (Fin 30))) (Fin 100)
      then fadd (fmul (Fin mx) (Fin 70)) (fmul (Fin mn) (Fin 30)) else Fin 100) \<and>
   flt_le (compute_risk_index st) (Fin 100) \<and>
   fst (overall_assessment (compute_risk_index st)) =
     (if flt_less (compute_risk_index st) (Fin 30) then ''SAFE''
      else if flt_less (compute_risk_index st) (Fin 50) then ''LOW''
      else if flt_less (compute_risk_index st) (Fin 70) then ''MODERATE''
      else if flt_less (compute_risk_index st) (Fin 90) then ''HIGH'' else ''SEVERE'') \<and>
   (\<exists>rep. generate_risk_report ds = Inr rep \<and>
      risk_index rep = compute_risk_index (snd (get_dataframe ds)) \<and>
      overall_risk rep = fst (overall_assessment (risk_index rep)))"
proof -
  assume mx: "stats_max st = Fin mx" and mn: "stats_mean st = Fin mn"
  let ?x = "fadd (fmul (Fin mx) (Fin 70)) (fmul (Fin mn) (Fin 30))"
  have idx: "compute_risk_index st = (if flt_less ?x (Fin 100) then ?x else Fin 100)"
    using mx mn by (simp add: compute_risk_index_def py_min_def)
  have le: "flt_le (compute_risk_index st) (Fin 100)"
    unfolding idx by (cases ?x) auto
  have lvl: "fst (overall_assessment i) =
     (if flt_less i (Fin 30) then ''SAFE''
      else if flt_less i (Fin 50) then ''LOW''
      else if flt_less i (Fin 70) then ''MODERATE''
      else if flt_less i (Fin 90) then ''HIGH'' else ''SEVERE'')" for i
    by (simp add: overall_assessment_def)
  show ?thesis
    using generate_risk_report_total [of ds] idx le lvl by auto
qed

text \<open>
  At maximum 0.578 and mean 0.318 the exact sum would be 50; the doubles give
  49.99999999999999, and the level is LOW.
\<close>

theorem aggregate_index_and_level_witness:
  "stats_max \<lparr>stats_mean = Fin (318 / 1000), stats_max = Fin (578 / 1000), stats_min = Fin 0\<rparr> = Fin (578 / 1000) \<and>
   stats_mean \<lparr>stats_mean = Fin (318 / 1000), stats_max = Fin (578 / 1000), stats_min = Fin 0\<rparr> = Fin (318 / 1000) \<and>
   compute_risk_index \<lparr>stats_mean = Fin (318 / 1000), stats_max = Fin (578 / 1000), stats_min = Fin 0\<rparr> = Fin (7036874417766399 / 140737488355328) \<and>
   7036874417766399 / 140737488355328 < (50::rat) \<and>
   fst (overall_assessment (compute_risk_index \<lparr>stats_mean = Fin (318 / 1000), stats_max = Fin (578 / 1000), stats_min = Fin 0\<rparr>)) = ''LOW''"
proof -
  have r1: "round_double (289 / 500) = Fin (5206161169240293 / 9007199254740992)"
    by (rule round_double_pos [where e = "- 1" and m = 5206161169240293]) simp_all
  have r2: "round_double (70) = Fin (70)"
    by (rule round_double_pos [where e = "6" and m = 4925812092436480]) simp_all
  have r3: "round_double (182215640923410255 / 4503599627370496) = Fin (2847119389428285 / 70368744177664)"
    by (rule round_double_pos [where e = "5" and m = 5694238778856570]) simp_all
  have o1: "fmul (Fin (289 / 500)) (Fin (70)) = Fin (2847119389428285 / 70368744177664)"
    using r1 r2 r3 by (simp add: fmul_def)
  have r4: "round_double (159 / 500) = Fin (5728578726015271 / 18014398509481984)"
    by (rule round_double_pos [where e = "- 2" and m = 5728578726015271]) simp_all
  have r5: "round_double (30) = Fin (30)"
    by (rule round_double_pos [where e = "4" and m = 8444249301319680]) simp_all
  have r6: "round_double (85928680890229065 / 9007199254740992) = Fin (5370542555639317 / 562949953421312)"
    by (rule round_double_pos [where e = "3" and m = 5370542555639317]) simp_all
  have o2: "fmul (Fin (159 / 500)) (Fin (30)) = Fin (5370542555639317 / 562949953421312)"
    using r4 r5 r6 by (simp add: fmul_def)
  have r7: "round_double (2847119389428285 / 70368744177664) = Fin (2847119389428285 / 70368744177664)"
    by (rule round_double_pos [where e = "5" and m = 5694238778856570]) simp_all
  have r8: "round_double (5370542555639317 / 562949953421312) = Fin (5370542555639317 / 562949953421312)"
    by (rule round_double_pos [where e = "3" and m = 5370542555639317]) simp_all
  have r9: "round_double (28147497671065597 / 562949953421312) = Fin (7036874417766399 / 140737488355328)"
    by (rule round_double_pos [where e = "5" and m = 7036874417766399]) simp_all
  have o3: "fadd (Fin (2847119389428285 / 70368744177664)) (Fin (5370542555639317 / 562949953421312)) = Fin (7036874417766399 / 140737488355328)"
    using r7 r8 r9 by (simp add: fadd_def)
  have x: "fadd (fmul (Fin (578 / 1000)) (Fin 70)) (fmul (Fin (318 / 1000)) (Fin 30)) = Fin (7036874417766399 / 140737488355328)"
    using o1 o2 o3 by simp
  have h1: "stats_max \<lparr>stats_mean = Fin (318 / 1000), stats_max = Fin (578 / 1000), stats_min = Fin 0\<rparr> = Fin (578 / 1000)" by simp
  have h2: "stats_mean \<lparr>stats_mean = Fin (318 / 1000), stats_max = Fin (578 / 1000), stats_min = Fin 0\<rparr> = Fin (318 / 1000)" by simp
  note t = aggregate_index_and_level [OF h1 h2, of "[]"]
  have idx: "compute_risk_index \<lparr>stats_mean = Fin (318 / 1000), stats_max = Fin (578 / 1000), stats_min = Fin 0\<rparr> = Fin (7036874417766399 / 140737488355328)"
    using t [THEN conjunct1] x by simp
  have lvl: "fst (overall_assessment (compute_risk_index \<lparr>stats_mean = Fin (318 / 1000), stats_max = Fin (578 / 1000), stats_min = Fin 0\<rparr>)) = ''LOW''"
    using t [THEN conjunct2, THEN conjunct2, THEN conjunct1] unfolding idx by simp
  show ?thesis
    using idx lvl by simp
qed

text \<open>
  C8. The risk index is meant to lie between 0 and 100, and the source says so beside the
  computation; but only the upper bound is enforced. A dataset with the single reading
  \<open>-1\<close> has maximum and mean \<open>-1\<close>, and its index is \<open>-100\<close>.
\<close>

theorem aggregate_index_negative:
  "compute_risk_index
     (snd (get_dataframe
        [\<lparr>Longitude = Fin 90, Latitude = Fin 23, Radiation_uSv_h = Fin (- 1)\<rparr>]))
     = Fin (- 100) \<and>
   map_sum id risk_index
     (generate_risk_report
        [\<lparr>Longitude = Fin 90, Latitude = Fin 23, Radiation_uSv_h = Fin (- 1)\<rparr>])
     = Inr (Fin (- 100)) \<and>
   \<not> flt_le (Fin 0) (Fin (- 100))"
proof -
  let ?ds = "[\<lparr>Longitude = Fin 90, Latitude = Fin 23, Radiation_uSv_h = Fin (- 1)\<rparr>]"
  have r1: "round_double (1) = Fin (1)"
    by (rule round_double_pos [where e = "0" and m = 4503599627370496]) simp_all
  have r2: "round_double (70) = Fin (70)"
    by (rule round_double_pos [where e = "6" and m = 4925812092436480]) simp_all
  have r3: "round_double (30) = Fin (30)"
    by (rule round_double_pos [where e = "4" and m = 8444249301319680]) simp_all
  have r4: "round_double (100) = Fin (100)"
    by (rule round_double_pos [where e = "6" and m = 7036874417766400]) simp_all
  have idx: "compute_risk_index (snd (get_dataframe ?ds)) = Fin (- 100)"
    using r1 r2 r3 r4 by (simp add: get_dataframe_def pd_mean_def pd_max_def pd_min_def pd_valid_def
        fdiv_count_def compute_risk_index_def py_min_def fadd_def fmul_def
        round_double_minus round_double_0)
  from generate_risk_report_total [of ?ds] obtain rep where
    "generate_risk_report ?ds = Inr rep"
    "risk_index rep = compute_risk_index (snd (get_dataframe ?ds))" by auto
  with idx show ?thesis by simp
qed

text \<open>
  C2, as stated, fails: the dose-rate \<open>-1\<close> is not rejected, it is classified SAFE.
\<close>

theorem classify_negative_not_rejected:
  "assess_risk_corrected (Fin (- 1)) =
     \<lparr>level = ''SAFE'', color = ''green'', action = ''No restrictions needed'',
      description = ''Within natural background range''\<rparr>"
  by (simp add: assess_risk_corrected_def)

text \<open>
  C2, amended. The classification validates nothing and never fails: every negative
  dose-rate, \<open>-inf\<close> included, is classified SAFE with the action of that row, and NaN
  and \<open>+inf\<close> are classified SEVERE.
\<close>

theorem classify_no_validation:
  "(flt_less x (Fin 0) \<longrightarrow>
      assess_risk_corrected x =
        \<lparr>level = ''SAFE'', color = ''green'', action = ''No restrictions needed'',
         description = ''Within natural background range''\<rparr>) \<and>
   level (assess_risk_corrected NInf) = ''SAFE'' \<and>
   level (assess_risk_corrected NaN) = ''SEVERE'' \<and>
   level (assess_risk_corrected PInf) = ''SEVERE''"
  by (cases x) (auto simp: assess_risk_corrected_def)

theorem classify_no_validation_witness:
  "flt_less (Fin (- 5 / 2)) (Fin 0) \<and>
   level (assess_risk_corrected (Fin (- 5 / 2))) = ''SAFE'' \<and>
   action (assess_risk_corrected (Fin (- 5 / 2))) = ''No restrictions needed''"
  using classify_no_validation [of "Fin (- 5 / 2)"] by simp

text \<open>
  C3, as stated, fails: report generation on the dataset with no samples returns a
  report; its index is 100 and its overall level SEVERE, since the statistics are NaN and
  \<^verbatim>\<open>min(100, nan)\<close> is 100.
\<close>

theorem report_empty_dataset_returns:
  "map_sum id risk_index (generate_risk_report []) = Inr (Fin 100) \<and>
   map_sum id overall_risk (generate_risk_report []) = Inr ''SEVERE''"
  by (simp add: generate_risk_report_def get_dataframe_def pd_mean_def pd_max_def pd_min_def
      pd_valid_def compute_risk_index_def py_min_def overall_assessment_def Let_def
      fadd_def fmul_def)

text \<open>
  C3, amended. Report generation on a dataset with no samples does not fail. It returns
  a report over 0 points whose statistics are NaN (undefined, not zero), whose five
  counts are all 0 and whose hotspot list is empty.
\<close>

theorem report_empty_dataset:
  "\<exists>rep. generate_risk_report [] = Inr rep \<and>
     n_points rep = 0 \<and>
     report_stats rep = \<lparr>stats_mean = NaN, stats_max = NaN, stats_min = NaN\<rparr> \<and>
     risk_counts rep =
       [(''SAFE'', 0), (''LOW'', 0), (''MODERATE'', 0), (''HIGH'', 0), (''SEVERE'', 0)] \<and>
     hotspots rep = [] \<and> exposures rep = []"
  by (simp add: generate_risk_report_def get_dataframe_def pd_mean_def pd_max_def pd_min_def
      pd_valid_def risk_counts_init_def Let_def)

text \<open>
  C4, as stated, fails: the dictionary holds text, not numbers, and the text is rounded.
  At the dose-rate 0.013 the days to the public limit are \<open>125000/13\<close> and stored as
  \<^verbatim>\<open>9615\<close>; the two percentages are 2.6 and 0.13, stored as \<^verbatim>\<open>2.6%\<close> and
  \<^verbatim>\<open>0.1%\<close>, which are not in the ratio 20 to 1.
\<close>

theorem exposure_estimate_stores_rounded_text:
  "calculate_exposure_safety (Fin (13 / 1000)) =
     Inr [(''public_safety'', ''Safe for 9615 days (8hr/day)''),
          (''worker_safety'', ''Safe for 192308 days (8hr/day)''),
          (''annual_dose_estimate'', ''26 '' @ micro_sign @ ''Sv/year''),
          (''percent_of_public_limit'', ''2.6%''),
          (''percent_of_worker_limit'', ''0.1%'')] \<and>
   spec_days_to_public_limit (13 / 1000) = 125000 / 13 \<and>
   spec_percent_of_public_limit (13 / 1000) = 26 / 10 \<and>
   spec_percent_of_worker_limit (13 / 1000) = 13 / 100"
proof -
  have r1: "round_double (13 / 1000) = Fin (7493989779944505 / 576460752303423488)"
    by (rule round_double_pos [where e = "- 7" and m = 7493989779944505]) simp_all
  have r2: "round_double (1000) = Fin (1000)"
    by (rule round_double_pos [where e = "9" and m = 8796093022208000]) simp_all
  have r3: "round_double (115292150460684697600 / 1498797955988901) = Fin (5286113595076923 / 68719476736)"
    by (rule round_double_pos [where e = "16" and m = 5286113595076923]) simp_all
  have o1: "py_truediv (Fin (1000)) (Fin (13 / 1000)) = Inr (Fin (5286113595076923 / 68719476736))"
    using r2 r1 r3 by (simp add: py_truediv_def)
  have r4: "round_double (20000) = Fin (20000)"
    by (rule round_double_pos [where e = "14" and m = 5497558138880000]) simp_all
  have r5: "round_double (2305843009213693952000 / 1498797955988901) = Fin (3303820996923077 / 2147483648)"
    by (rule round_double_pos [where e = "20" and m = 6607641993846154]) simp_all
  have o2: "py_truediv (Fin (20000)) (Fin (13 / 1000)) = Inr (Fin (3303820996923077 / 2147483648))"
    using r4 r1 r5 by (simp add: py_truediv_def)
  have r6: "round_double (5286113595076923 / 68719476736) = Fin (5286113595076923 / 68719476736)"
    by (rule round_double_pos [where e = "16" and m = 5286113595076923]) simp_all
  have r7: "round_double (8) = Fin (8)"
    by (rule round_double_pos [where e = "3" and m = 4503599627370496]) simp_all
  have r8: "round_double (5286113595076923 / 549755813888) = Fin (5286113595076923 / 549755813888)"
    by (rule round_double_pos [where e = "13" and m = 5286113595076923]) simp_all
  have o3: "py_truediv (Fin (5286113595076923 / 68719476736)) (Fin (8)) = Inr (Fin (5286113595076923 / 549755813888))"
    using r6 r7 r8 by (simp add: py_truediv_def)
  have r9: "round_double (3303820996923077 / 2147483648) = Fin (3303820996923077 / 2147483648)"
    by (rule round_double_pos [where e = "20" and m = 6607641993846154]) simp_all
  have r10: "round_double (3303820996923077 / 17179869184) = Fin (3303820996923077 / 17179869184)"
    by (rule round_double_pos [where e = "17" and m = 6607641993846154]) simp_all
  have o4: "py_truediv (Fin (3303820996923077 / 2147483648)) (Fin (8)) = Inr (Fin (3303820996923077 / 17179869184))"
    using r9 r7 r10 by (simp add: py_truediv_def)
  have r11: "round_double (7493989779944505 / 72057594037927936) = Fin (7493989779944505 / 72057594037927936)"
    by (rule round_double_pos [where e = "- 4" and m = 7493989779944505]) simp_all
  have o5: "fmul (Fin (13 / 1000)) (Fin (8)) = Fin (7493989779944505 / 72057594037927936)"
    using r1 r7 r11 by (simp add: fmul_def)
  have r12: "round_double (250) = Fin (250)"
    by (rule round_double_pos [where e = "7" and m = 8796093022208000]) simp_all
  have r13: "round_double (936748722493063125 / 36028797018963968) = Fin (26)"
    by (rule round_double_pos [where e = "4" and m = 7318349394477056]) simp_all
  have o6: "fmul (Fin (7493989779944505 / 72057594037927936)) (Fin (250)) = Fin (26)"
    using r11 r12 r13 by (simp add: fmul_def)
  have r14: "round_double (26) = Fin (26)"
    by (rule round_double_pos [where e = "4" and m = 7318349394477056]) simp_all
  have r15: "round_double (13 / 500) = Fin (7493989779944505 / 288230376151711744)"
    by (rule round_double_pos [where e = "- 6" and m = 7493989779944505]) simp_all
  have o7: "py_truediv (Fin (26)) (Fin (1000)) = Inr (Fin (7493989779944505 / 288230376151711744))"
    using r14 r2 r15 by (simp add: py_truediv_def)
  have r16: "round_double (13 / 10000) = Fin (1498797955988901 / 1152921504606846976)"
    by (rule round_double_pos [where e = "- 10" and m = 5995191823955604]) simp_all
  have o8: "py_truediv (Fin (26)) (Fin (20000)) = Inr (Fin (1498797955988901 / 1152921504606846976))"
    using r14 r4 r16 by (simp add: py_truediv_def)
  have r17: "round_double (7493989779944505 / 288230376151711744) = Fin (7493989779944505 / 288230376151711744)"
    by (rule round_double_pos [where e = "- 6" and m = 7493989779944505]) simp_all
  have r18: "round_double (100) = Fin (100)"
    by (rule round_double_pos [where e = "6" and m = 7036874417766400]) simp_all
  have r19: "round_double (187349744498612625 / 72057594037927936) = Fin (5854679515581645 / 2251799813685248)"
    by (rule round_double_pos [where e = "1" and m = 5854679515581645]) simp_all
  have o9: "fmul (Fin (7493989779944505 / 288230376151711744)) (Fin (100)) = Fin (5854679515581645 / 2251799813685248)"
    using r17 r18 r19 by (simp add: fmul_def)
  have r20: "round_double (1498797955988901 / 1152921504606846976) = Fin (1498797955988901 / 1152921504606846976)"
    by (rule round_double_pos [where e = "- 10" and m = 5995191823955604]) simp_all
  have r21: "round_double (37469948899722525 / 288230376151711744) = Fin (1170935903116329 / 9007199254740992)"
    by (rule round_double_pos [where e = "- 3" and m = 4683743612465316]) simp_all
  have o10: "fmul (Fin (1498797955988901 / 1152921504606846976)) (Fin (100)) = Fin (1170935903116329 / 9007199254740992)"
    using r20 r18 r21 by (simp add: fmul_def)
  have f11: "format_f 0 (Fin (5286113595076923 / 549755813888)) = ''9615''"
    using r8 by (subst format_f_eval [where m = 9615 and q' = "5286113595076923 / 549755813888"]) (simp_all add: str_nat_eval)
  have f12: "format_f 0 (Fin (3303820996923077 / 17179869184)) = ''192308''"
    using r10 by (subst format_f_eval [where m = 192308 and q' = "3303820996923077 / 17179869184"]) (simp_all add: str_nat_eval)
  have f13: "format_f 0 (Fin (26)) = ''26''"
    using r14 by (subst format_f_eval [where m = 26 and q' = "26"]) (simp_all add: str_nat_eval)
  have r22: "round_double (5854679515581645 / 2251799813685248) = Fin (5854679515581645 / 2251799813685248)"
    by (rule round_double_pos [where e = "1" and m = 5854679515581645]) simp_all
  have f14: "format_f 1 (Fin (5854679515581645 / 2251799813685248)) = ''2.6''"
    using r22 by (subst format_f_eval [where m = 26 and q' = "5854679515581645 / 2251799813685248"]) (simp_all add: str_nat_eval)
  have r23: "round_double (1170935903116329 / 9007199254740992) = Fin (1170935903116329 / 9007199254740992)"
    by (rule round_double_pos [where e = "- 3" and m = 4683743612465316]) simp_all
  have f15: "format_f 1 (Fin (1170935903116329 / 9007199254740992)) = ''0.1''"
    using r23 by (subst format_f_eval [where m = 1 and q' = "1170935903116329 / 9007199254740992"]) (simp_all add: str_nat_eval)
  show ?thesis
    using r1 o1 o2 o3 o4 o5 o6 o7 o8 o9 o10 f11 f12 f13 f14 f15
    by (simp add: calculate_exposure_safety_def Let_def spec_days_to_public_limit_def
        spec_annual_dose_8hr_def spec_percent_of_public_limit_def
        spec_percent_of_worker_limit_def)
qed

text \<open>
  C4, amended. For a dose-rate \<open>r \<le> 0\<close> the estimate is the one-entry dictionary
  \<^verbatim>\<open>status\<close>, not an error. For a double \<open>r > 0\<close> no division fails and the five
  entries are text: the quantities \<^verbatim>\<open>(1000/r)/8\<close>, \<^verbatim>\<open>(20000/r)/8\<close>, \<^verbatim>\<open>r*8*250\<close> and
  the two percentages, computed in double arithmetic and rendered with no decimals (one
  for the percentages). The exact percentages of the reference formulas are in the
  ratio 20 to 1.
\<close>

theorem exposure_estimate_rendered:
  "(r \<le> 0 \<longrightarrow>
      calculate_exposure_safety (Fin r) = Inr [(''status'', ''No radiation detected'')]) \<and>
   (0 < r \<and> round_double r = Fin r \<longrightarrow>
      (\<exists>hours_pub hours_wrk days_pub days_wrk frac_pub frac_wrk.
         py_truediv (Fin 1000) (Fin r) = Inr hours_pub \<and>
         py_truediv (Fin 20000) (Fin r) = Inr hours_wrk \<and>
         py_truediv hours_pub (Fin 8) = Inr days_pub \<and>
         py_truediv hours_wrk (Fin 8) = Inr days_wrk \<and>
         py_truediv (fmul (fmul (Fin r) (Fin 8)) (Fin 250)) (Fin 1000) = Inr frac_pub \<and>
         py_truediv (fmul (fmul (Fin r) (Fin 8)) (Fin 250)) (Fin 20000) = Inr frac_wrk \<and>
         calculate_exposure_safety (Fin r) =
           Inr [(''public_safety'',
                   ''Safe for '' @ format_f 0 days_pub @ '' days (8hr/day)''),
                (''worker_safety'',
                   ''Safe for '' @ format_f 0 days_wrk @ '' days (8hr/day)''),
                (''annual_dose_estimate'',
                   format_f 0 (fmul (fmul (Fin r) (Fin 8)) (Fin 250))
                     @ '' '' @ micro_sign @ ''Sv/year''),
                (''percent_of_public_limit'',
                   format_f 1 (fmul frac_pub (Fin 100)) @ ''%''),
                (''percent_of_worker_limit'',
                   format_f 1 (fmul frac_wrk (Fin 100)) @ ''%'')])) \<and>
   spec_percent_of_public_limit r = 20 * spec_percent_of_worker_limit r"
proof -
  have neg: "calculate_exposure_safety (Fin r) = Inr [(''status'', ''No radiation detected'')]"
    if "r \<le> 0"
  proof -
    from round_double_nonpos [OF that] have "flt_le (dbl (Fin r)) (Fin 0)" by auto
    then show ?thesis by (simp add: calculate_exposure_safety_def)
  qed
  have ratio: "spec_percent_of_public_limit r = 20 * spec_percent_of_worker_limit r"
    by (simp add: spec_percent_of_public_limit_def spec_percent_of_worker_limit_def)
  have pos: "\<exists>hours_pub hours_wrk days_pub days_wrk frac_pub frac_wrk.
         py_truediv (Fin 1000) (Fin r) = Inr hours_pub \<and>
         py_truediv (Fin 20000) (Fin r) = Inr hours_wrk \<and>
         py_truediv hours_pub (Fin 8) = Inr days_pub \<and>
         py_truediv hours_wrk (Fin 8) = Inr days_wrk \<and>
         py_truediv (fmul (fmul (Fin r) (Fin 8)) (Fin 250)) (Fin 1000) = Inr frac_pub \<and>
         py_truediv (fmul (fmul (Fin r) (Fin 8)) (Fin 250)) (Fin 20000) = Inr frac_wrk \<and>
         calculate_exposure_safety (Fin r) =
           Inr [(''public_safety'',
                   ''Safe for '' @ format_f 0 days_pub @ '' days (8hr/day)''),
                (''worker_safety'',
                   ''Safe for '' @ format_f 0 days_wrk @ '' days (8hr/day)''),
                (''annual_dose_estimate'',
                   format_f 0 (fmul (fmul (Fin r) (Fin 8)) (Fin 250))
                     @ '' '' @ micro_sign @ ''Sv/year''),
                (''percent_of_public_limit'',
                   format_f 1 (fmul frac_pub (Fin 100)) @ ''%''),
                (''percent_of_worker_limit'',
                   format_f 1 (fmul frac_wrk (Fin 100)) @ ''%'')]"
    if r0: "0 < r" and rd: "round_double r = Fin r"
  proof -
    have nz: "dbl (Fin r) \<noteq> Fin 0" using r0 rd by simp
    have c8: "dbl (Fin 8) \<noteq> Fin 0" by (simp add: round_double_8)
    have c1000: "dbl (Fin 1000) \<noteq> Fin 0" by (simp add: round_double_1000)
    have c20000: "dbl (Fin 20000) \<noteq> Fin 0" by (simp add: round_double_20000)
    obtain hp where hp: "py_truediv (Fin 1000) (Fin r) = Inr hp"
      using py_truediv_total [OF nz] by blast
    obtain hw where hw: "py_truediv (Fin 20000) (Fin r) = Inr hw"
      using py_truediv_total [OF nz] by blast
    obtain dp where dp: "py_truediv hp (Fin 8) = Inr dp"
      using py_truediv_total [OF c8] by blast
    obtain dw where dw: "py_truediv hw (Fin 8) = Inr dw"
      using py_truediv_total [OF c8] by blast
    obtain pf where pf: "py_truediv (fmul (fmul (Fin r) (Fin 8)) (Fin 250)) (Fin 1000) = Inr pf"
      using py_truediv_total [OF c1000] by blast
    obtain wf where wf: "py_truediv (fmul (fmul (Fin r) (Fin 8)) (Fin 250)) (Fin 20000) = Inr wf"
      using py_truediv_total [OF c20000] by blast
    have "calculate_exposure_safety (Fin r) =
           Inr [(''public_safety'',
                   ''Safe for '' @ format_f 0 dp @ '' days (8hr/day)''),
                (''worker_safety'',
                   ''Safe for '' @ format_f 0 dw @ '' days (8hr/day)''),
                (''annual_dose_estimate'',
                   format_f 0 (fmul (fmul (Fin r) (Fin 8)) (Fin 250))
                     @ '' '' @ micro_sign @ ''Sv/year''),
                (''percent_of_public_limit'',
                   format_f 1 (fmul pf (Fin 100)) @ ''%''),
                (''percent_of_worker_limit'',
                   format_f 1 (fmul wf (Fin 100)) @ ''%'')]"
      using r0 rd hp hw dp dw pf wf by (simp add: calculate_exposure_safety_def Let_def)
    with hp hw dp dw pf wf show ?thesis by blast
  qed
  from neg ratio pos show ?thesis by blast
qed

theorem exposure_estimate_rendered_witness:
  "(0::rat) \<le> 0 \<and>
   calculate_exposure_safety (Fin 0) = Inr [(''status'', ''No radiation detected'')] \<and>
   (0::rat) < 1 \<and> round_double 1 = Fin 1 \<and>
   calculate_exposure_safety (Fin 1) =
     Inr [(''public_safety'', ''Safe for 125 days (8hr/day)''),
          (''worker_safety'', ''Safe for 2500 days (8hr/day)''),
          (''annual_dose_estimate'', ''2000 '' @ micro_sign @ ''Sv/year''),
          (''percent_of_public_limit'', ''200.0%''),
          (''percent_of_worker_limit'', ''10.0%'')]"
proof -
  have r1: "round_double (1) = Fin (1)"
    by (rule round_double_pos [where e = "0" and m = 4503599627370496]) simp_all
  have r2: "round_double (1000) = Fin (1000)"
    by (rule round_double_pos [where e = "9" and m = 8796093022208000]) simp_all
  have o1: "py_truediv (Fin (1000)) (Fin (1)) = Inr (Fin (1000))"
    using r2 r1 by (simp add: py_truediv_def)
  have r3: "round_double (20000) = Fin (20000)"
    by (rule round_double_pos [where e = "14" and m = 5497558138880000]) simp_all
  have o2: "py_truediv (Fin (20000)) (Fin (1)) = Inr (Fin (20000))"
    using r3 r1 by (simp add: py_truediv_def)
  have r4: "round_double (8) = Fin (8)"
    by (rule round_double_pos [where e = "3" and m = 4503599627370496]) simp_all
  have r5: "round_double (125) = Fin (125)"
    by (rule round_double_pos [where e = "6" and m = 8796093022208000]) simp_all
  have o3: "py_truediv (Fin (1000)) (Fin (8)) = Inr (Fin (125))"
    using r2 r4 r5 by (simp add: py_truediv_def)
  have r6: "round_double (2500) = Fin (2500)"
    by (rule round_double_pos [where e = "11" and m = 5497558138880000]) simp_all
  have o4: "py_truediv (Fin (20000)) (Fin (8)) = Inr (Fin (2500))"
    using r3 r4 r6 by (simp add: py_truediv_def)
  have o5: "fmul (Fin (1)) (Fin (8)) = Fin (8)"
    using r1 r4 by (simp add: fmul_def)
  have r7: "round_double (250) = Fin (250)"
    by (rule round_double_pos [where e = "7" and m = 8796093022208000]) simp_all
  have r8: "round_double (2000) = Fin (2000)"
    by (rule round_double_pos [where e = "10" and m = 8796093022208000]) simp_all
  have o6: "fmul (Fin (8)) (Fin (250)) = Fin (2000)"
    using r4 r7 r8 by (simp add: fmul_def)
  have r9: "round_double (2) = Fin (2)"
    by (rule round_double_pos [where e = "1" and m = 4503599627370496]) simp_all
  have o7: "py_truediv (Fin (2000)) (Fin (1000)) = Inr (Fin (2))"
    using r8 r2 r9 by (simp add: py_truediv_def)
  have r10: "round_double (1 / 10) = Fin (3602879701896397 / 36028797018963968)"
    by (rule round_double_pos [where e = "- 4" and m = 7205759403792794]) simp_all
  have o8: "py_truediv (Fin (2000)) (Fin (20000)) = Inr (Fin (3602879701896397 / 36028797018963968))"
    using r8 r3 r10 by (simp add: py_truediv_def)
  have r11: "round_double (100) = Fin (100)"
    by (rule round_double_pos [where e = "6" and m = 7036874417766400]) simp_all
  have r12: "round_double (200) = Fin (200)"
    by (rule round_double_pos [where e = "7" and m = 7036874417766400]) simp_all
  have o9: "fmul (Fin (2)) (Fin (100)) = Fin (200)"
    using r9 r11 r12 by (simp add: fmul_def)
  have r13: "round_double (3602879701896397 / 36028797018963968) = Fin (3602879701896397 / 36028797018963968)"
    by (rule round_double_pos [where e = "- 4" and m = 7205759403792794]) simp_all
  have r14: "round_double (90071992547409925 / 9007199254740992) = Fin (10)"
    by (rule round_double_pos [where e = "3" and m = 5629499534213120]) simp_all
  have o10: "fmul (Fin (3602879701896397 / 36028797018963968)) (Fin (100)) = Fin (10)"
    using r13 r11 r14 by (simp add: fmul_def)
  have f11: "format_f 0 (Fin (125)) = ''125''"
    using r5 by (subst format_f_eval [where m = 125 and q' = "125"]) (simp_all add: str_nat_eval)
  have f12: "format_f 0 (Fin (2500)) = ''2500''"
    using r6 by (subst format_f_eval [where m = 2500 and q' = "2500"]) (simp_all add: str_nat_eval)
  have f13: "format_f 0 (Fin (2000)) = ''2000''"
    using r8 by (subst format_f_eval [where m = 2000 and q' = "2000"]) (simp_all add: str_nat_eval)
  have f14: "format_f 1 (Fin (200)) = ''200.0''"
    using r12 by (subst format_f_eval [where m = 2000 and q' = "200"]) (simp_all add: str_nat_eval)
  have r15: "round_double (10) = Fin (10)"
    by (rule round_double_pos [where e = "3" and m = 5629499534213120]) simp_all
  have f15: "format_f 1 (Fin (10)) = ''10.0''"
    using r15 by (subst format_f_eval [where m = 100 and q' = "10"]) (simp_all add: str_nat_eval)
  have one: "round_double 1 = Fin 1"
    using r1 by simp
  show ?thesis
    using exposure_estimate_rendered [of 0] exposure_estimate_rendered [of 1] one
      r1 o1 o2 o3 o4 o5 o6 o7 o8 o9 o10 f11 f12 f13 f14 f15
    by (auto simp: round_double_0)
qed

text \<open>
  C6. The dataset of four samples with dose-rates 0.4385, 0, 0, 0 yields the mean that
  Python writes 0.109625, maximum 0.4385 and minimum 0; point 1 is MODERATE and points 2
  to 4 are SAFE; the only hotspot is point 1; the index is
  \<^verbatim>\<open>min(100, 0.4385*70 + 0.109625*30)\<close>, the double written 33.98375, which prints as
  33.98; the overall level is LOW.
\<close>

theorem end_to_end_scenario:
  "map (\<lambda>d. level (assess_risk_corrected (Radiation_uSv_h d)))
     [\<lparr>Longitude = Fin (90357 / 1000), Latitude = Fin (23838 / 1000),
          Radiation_uSv_h = Fin (4385 / 10000)\<rparr>,
        \<lparr>Longitude = Fin (90358 / 1000), Latitude = Fin (23838 / 1000),
          Radiation_uSv_h = Fin 0\<rparr>,
        \<lparr>Longitude = Fin (90357 / 1000), Latitude = Fin (23838 / 1000),
          Radiation_uSv_h = Fin 0\<rparr>,
        \<lparr>Longitude = Fin (90358 / 1000), Latitude = Fin (23838 / 1000),
          Radiation_uSv_h = Fin 0\<rparr>]
     = [''MODERATE'', ''SAFE'', ''SAFE'', ''SAFE''] \<and>
   (\<exists>rep. generate_risk_report
       [\<lparr>Longitude = Fin (90357 / 1000), Latitude = Fin (23838 / 1000),
          Radiation_uSv_h = Fin (4385 / 10000)\<rparr>,
        \<lparr>Longitude = Fin (90358 / 1000), Latitude = Fin (23838 / 1000),
          Radiation_uSv_h = Fin 0\<rparr>,
        \<lparr>Longitude = Fin (90357 / 1000), Latitude = Fin (23838 / 1000),
          Radiation_uSv_h = Fin 0\<rparr>,
        \<lparr>Longitude = Fin (90358 / 1000), Latitude = Fin (23838 / 1000),
          Radiation_uSv_h = Fin 0\<rparr>] = Inr rep \<and>
     n_points rep = 4 \<and>
     stats_mean (report_stats rep) = dbl (Fin (109625 / 1000000)) \<and>
     stats_max (report_stats rep) = Fin (4385 / 10000) \<and>
     stats_min (report_stats rep) = Fin 0 \<and>
     risk_counts rep =
       [(''SAFE'', 3), (''LOW'', 0), (''MODERATE'', 1), (''HIGH'', 0), (''SEVERE'', 0)] \<and>
     hotspots rep =
       [\<lparr>point = 1, radiation = Fin (4385 / 10000), risk = ''MODERATE''\<rparr>] \<and>
     risk_index rep =
       py_min (Fin 100)
         (fadd (fmul (Fin (4385 / 10000)) (Fin 70)) (fmul (Fin (109625 / 1000000)) (Fin 30))) \<and>
     risk_index rep = dbl (Fin (3398375 / 100000)) \<and>
     format_f 2 (risk_index rep) = ''33.98'' \<and>
     overall_risk rep = ''LOW'')"
  using scenario_report
    [of "Fin (90357 / 1000)" "Fin (23838 / 1000)" "Fin (90358 / 1000)" "Fin (23838 / 1000)"
        "Fin (90357 / 1000)" "Fin (23838 / 1000)" "Fin (90358 / 1000)" "Fin (23838 / 1000)"]
  by (simp add: level_assess)

end
